theory Spec2Isabelle
  imports Main "HOL-Library.AList" "HOL-Library.Monad_Syntax" "HOL-Library.Sublist"
begin

section \<open>Text and the Python library\<close>

text \<open>
  A string is a list of characters: the bytes of the text in UTF-8, so that an ASCII
  character is one character of the list. Concatenation, equality, the test for an ASCII
  prefix or suffix and the search for an ASCII word give the same result on these bytes
  as on the text.

  Three functions of the library are applied to text of the document and depend on the
  Unicode character database or on the version of Python: \<^verbatim>\<open>str.lower\<close>,
  \<^verbatim>\<open>str.isdigit\<close> and \<^verbatim>\<open>int\<close>. They are parameters of the model, held in a
  record; \<open>str_int\<close> is None where \<^verbatim>\<open>int\<close> raises ValueError. What is proved for
  every such record holds for the library as it is.
\<close>

record python =
  str_lower :: "string \<Rightarrow> string"
  str_isdigit :: "string \<Rightarrow> bool"
  str_int :: "string \<Rightarrow> int option"

subsection \<open>ASCII text\<close>

text \<open>
  The library on ASCII text: case conversion maps the 26 letters, and white space is what
  \<^verbatim>\<open>str.split\<close> and the regular expression class \<^verbatim>\<open>\s\<close> accept below code point
  128. The program applies \<open>ascii_upper\<close> and \<open>ascii_lower\<close> to SQL types, which it
  has taken from its own table of ASCII words, and to an attribute name that it compares
  with the word id, which no other text than the four spellings of id yields in lower
  case. The readers of SQL are modelled for ASCII scripts.
\<close>

definition ascii_upper_char :: "char \<Rightarrow> char" where
  "ascii_upper_char c =
     (case map_of (zip ''abcdefghijklmnopqrstuvwxyz'' ''ABCDEFGHIJKLMNOPQRSTUVWXYZ'') c of
        Some u \<Rightarrow> u | None \<Rightarrow> c)"

definition ascii_lower_char :: "char \<Rightarrow> char" where
  "ascii_lower_char c =
     (case map_of (zip ''ABCDEFGHIJKLMNOPQRSTUVWXYZ'' ''abcdefghijklmnopqrstuvwxyz'') c of
        Some l \<Rightarrow> l | None \<Rightarrow> c)"

definition ascii_upper :: "string \<Rightarrow> string" where
  "ascii_upper s = map ascii_upper_char s"

definition ascii_lower :: "string \<Rightarrow> string" where
  "ascii_lower s = map ascii_lower_char s"

definition py_isspace :: "char \<Rightarrow> bool" where
  "py_isspace c =
     (c = CHR '' '' \<or> c = CHR 0x09 \<or> c = CHR 0x0A \<or> c = CHR 0x0B \<or> c = CHR 0x0C \<or>
      c = CHR 0x0D \<or> c = CHR 0x1C \<or> c = CHR 0x1D \<or> c = CHR 0x1E \<or> c = CHR 0x1F)"

text \<open>\<^verbatim>\<open>s.startswith(p)\<close>, \<^verbatim>\<open>s.endswith(p)\<close> and \<^verbatim>\<open>sub in s\<close>.\<close>

fun py_startswith :: "string \<Rightarrow> string \<Rightarrow> bool" where
  "py_startswith [] s = True"
| "py_startswith (p # ps) [] = False"
| "py_startswith (p # ps) (c # cs) = (p = c \<and> py_startswith ps cs)"

definition py_endswith :: "string \<Rightarrow> string \<Rightarrow> bool" where
  "py_endswith ending s = py_startswith (rev ending) (rev s)"

fun py_in :: "string \<Rightarrow> string \<Rightarrow> bool" where
  "py_in sub [] = (sub = [])"
| "py_in sub (c # cs) = (py_startswith sub (c # cs) \<or> py_in sub cs)"

text \<open>\<^verbatim>\<open>s.strip(chars)\<close> removes the given characters from both ends.\<close>

definition py_strip_chars :: "string \<Rightarrow> string \<Rightarrow> string" where
  "py_strip_chars chars s =
     rev (dropWhile (\<lambda>c. c \<in> set chars) (rev (dropWhile (\<lambda>c. c \<in> set chars) s)))"

text \<open>\<^verbatim>\<open>s.split()\<close>: the maximal runs of characters that are not white space.\<close>

fun py_split_from :: "string \<Rightarrow> string \<Rightarrow> string list" where
  "py_split_from w [] = (if w = [] then [] else [rev w])"
| "py_split_from w (c # cs) =
     (if py_isspace c then (if w = [] then py_split_from [] cs else rev w # py_split_from [] cs)
      else py_split_from (c # w) cs)"

definition py_split :: "string \<Rightarrow> string list" where
  "py_split s = py_split_from [] s"

text \<open>\<^verbatim>\<open>sep.join(xs)\<close>.\<close>

fun py_join :: "string \<Rightarrow> string list \<Rightarrow> string" where
  "py_join sep [] = []"
| "py_join sep [x] = x"
| "py_join sep (x # y # ys) = x @ sep @ py_join sep (y # ys)"

subsection \<open>Integers from ASCII text\<close>

definition is_digit_char :: "char \<Rightarrow> bool" where
  "is_digit_char c = (c \<in> set ''0123456789'')"

definition digit_value :: "char \<Rightarrow> int" where
  "digit_value c = (case map_of (zip ''0123456789'' [0, 1, 2, 3, 4, 5, 6, 7, 8, 9]) c of
                      Some d \<Rightarrow> d | None \<Rightarrow> 0)"

text \<open>
  \<^verbatim>\<open>s.isdigit()\<close> for ASCII text: not empty, and every character one of 0 to 9.
  (Beyond ASCII the library also counts other digits, such as superscript digits, which
  \<^verbatim>\<open>int\<close> rejects, and Arabic-Indic digits, which it accepts.)
\<close>

definition ascii_isdigit :: "string \<Rightarrow> bool" where
  "ascii_isdigit s = (s \<noteq> [] \<and> list_all is_digit_char s)"

text \<open>
  The digits of an integer literal, read from the left with the value so far. Python
  allows one underscore between two digits; \<open>prev_digit\<close> says whether the character
  before was a digit. The result is None where \<^verbatim>\<open>int\<close> raises ValueError.
\<close>

fun int_digits :: "int \<Rightarrow> bool \<Rightarrow> string \<Rightarrow> int option" where
  "int_digits acc prev_digit [] = (if prev_digit then Some acc else None)"
| "int_digits acc prev_digit (c # cs) =
     (if is_digit_char c then int_digits (10 * acc + digit_value c) True cs
      else if c = CHR ''_'' \<and> prev_digit then int_digits acc False cs
      else None)"

text \<open>
  \<^verbatim>\<open>int(s)\<close> for ASCII text in base 10: white space around the literal is skipped
  (the C locale's white space: space, tab, line feed, vertical tab, form feed, carriage
  return), then an optional sign, then the digits. \<open>max_str_digits\<close> is the
  interpreter's limit on the number of digits (4300 unless configured, 0 for none, and
  none at all in older versions): with a limit, a literal of more digits raises
  ValueError; leading zeros count, the sign and the underscores do not.
\<close>

definition c_isspace :: "char \<Rightarrow> bool" where
  "c_isspace c =
     (c = CHR '' '' \<or> c = CHR 0x09 \<or> c = CHR 0x0A \<or> c = CHR 0x0B \<or> c = CHR 0x0C \<or>
      c = CHR 0x0D)"

definition ascii_int :: "nat \<Rightarrow> string \<Rightarrow> int option" where
  "ascii_int max_str_digits s =
     (let t = rev (dropWhile c_isspace (rev (dropWhile c_isspace s))) in
      if 0 < max_str_digits \<and> max_str_digits < length (filter is_digit_char t) then None
      else
        case t of
          [] \<Rightarrow> None
        | c # cs \<Rightarrow>
            if c = CHR ''+'' then int_digits 0 False cs
            else if c = CHR ''-'' then map_option uminus (int_digits 0 False cs)
            else int_digits 0 False (c # cs))"

text \<open>
  The library on ASCII text, with the default limit on digits: the instance at which the
  scenarios are computed.
\<close>

definition ascii_python :: python where
  "ascii_python =
     \<lparr>str_lower = ascii_lower, str_isdigit = ascii_isdigit, str_int = ascii_int 4300\<rparr>"

text \<open>
  The same library with one string beyond ASCII: the superscript two (U+00B2, in UTF-8
  the bytes C2 B2), of which \<^verbatim>\<open>isdigit\<close> holds and which \<^verbatim>\<open>int\<close> rejects.
\<close>

definition superscript_two :: string where
  "superscript_two = [CHR 0xC2, CHR 0xB2]"

definition superscript_python :: python where
  "superscript_python =
     \<lparr>str_lower = ascii_lower,
      str_isdigit = (\<lambda>s. s = superscript_two \<or> ascii_isdigit s),
      str_int = ascii_int 4300\<rparr>"

text \<open>\<^verbatim>\<open>str(n)\<close> for a counter, as the f-strings of the source print it.\<close>

fun py_str_nat :: "nat \<Rightarrow> string" where
  "py_str_nat n =
     (if n < 10 then [''0123456789'' ! n]
      else py_str_nat (n div 10) @ [''0123456789'' ! (n mod 10)])"

declare py_str_nat.simps [simp del]

section \<open>Element trees\<close>

text \<open>
  An element of \<^verbatim>\<open>xml.etree.ElementTree\<close>: its tag, its attribute dictionary
  (in document order, one entry for each name) and its child elements. Text content is
  not read by the program. A name in a namespace is spelled \<^verbatim>\<open>{uri}local\<close>.
\<close>

datatype element = Element (tag: string) (attrib: "(string \<times> string) list") (children: "element list")

definition attrib_get :: "element \<Rightarrow> string \<Rightarrow> string option" where
  "attrib_get elem k = map_of (attrib elem) k"

text \<open>\<^verbatim>\<open>elem.findall(t)\<close>: the children with that tag; \<^verbatim>\<open>elem.find(t)\<close>: the first.\<close>

definition findall :: "element \<Rightarrow> string \<Rightarrow> element list" where
  "findall elem t = filter (\<lambda>c. tag c = t) (children elem)"

definition find_child :: "element \<Rightarrow> string \<Rightarrow> element option" where
  "find_child elem t = (case findall elem t of [] \<Rightarrow> None | c # cs \<Rightarrow> Some c)"

text \<open>\<^verbatim>\<open>elem.iter()\<close>: the element and all its descendants, in document order.\<close>

fun iter :: "element \<Rightarrow> element list" where
  "iter (Element t a cs) = Element t a cs # concat (map iter cs)"

text \<open>\<^verbatim>\<open>ET.SubElement(parent, ...)\<close> appends a child.\<close>

definition SubElement :: "element \<Rightarrow> element \<Rightarrow> element" where
  "SubElement parent child = Element (tag parent) (attrib parent) (children parent @ [child])"

datatype error = ParseError | ValueError | TypeError | AttributeError

section \<open>Class diagram to SQL script\<close>

definition TYPE_MAPPING :: "(string \<times> string) list" where
  "TYPE_MAPPING =
     [(''String'', ''VARCHAR(255)''),
      (''Integer'', ''INT''),
      (''Boolean'', ''BOOLEAN''),
      (''Float'', ''FLOAT''),
      (''Double'', ''DOUBLE''),
      (''Long'', ''BIGINT''),
      (''Date'', ''DATE'')]"

definition XMI_NAMESPACE :: string where
  "XMI_NAMESPACE = ''http://schema.omg.org/spec/XMI/2.1''"

definition UML_NAMESPACE :: string where
  "UML_NAMESPACE = ''http://www.eclipse.org/uml2/3.0.0/UML''"

text \<open>Python's \<^verbatim>\<open>a or b\<close> on optional strings: None and the empty string are false.\<close>

definition truthy :: "string option \<Rightarrow> bool" where
  "truthy v = (case v of None \<Rightarrow> False | Some s \<Rightarrow> s \<noteq> [])"

definition py_or :: "string option \<Rightarrow> string option \<Rightarrow> string option" where
  "py_or a b = (if truthy a then a else b)"

definition get_attrib :: "element \<Rightarrow> string \<Rightarrow> string option" where
  "get_attrib elem attrib_name =
     py_or (attrib_get elem (''{'' @ XMI_NAMESPACE @ ''}'' @ attrib_name))
           (attrib_get elem attrib_name)"

subsection \<open>Classes\<close>

text \<open>The SQL type of an attribute: the table's entry, or VARCHAR(255).\<close>

definition sql_type_of :: "string option \<Rightarrow> string" where
  "sql_type_of attr_type =
     (if truthy attr_type
      then (case map_of TYPE_MAPPING (the attr_type) of Some t \<Rightarrow> t | None \<Rightarrow> ''VARCHAR(255)'')
      else ''VARCHAR(255)'')"

text \<open>The named attributes of a class element with their SQL types, in document order.\<close>

fun owned_attributes :: "element list \<Rightarrow> (string \<times> string) list" where
  "owned_attributes [] = []"
| "owned_attributes (attr # rest) =
     (let attr_name = attrib_get attr ''name'';
          sql_type = sql_type_of (attrib_get attr ''type'')
      in if truthy attr_name then (the attr_name, sql_type) # owned_attributes rest
         else owned_attributes rest)"

text \<open>
  The primary key: without an attribute called id (in any case) one is put first; with
  one, each such attribute whose type does not say so becomes a primary key.
\<close>

definition is_id :: "string \<Rightarrow> bool" where
  "is_id a_name = (ascii_lower a_name = ''id'')"

definition mark_primary_key :: "string \<times> string \<Rightarrow> string \<times> string" where
  "mark_primary_key a =
     (case a of (a_name, a_type) \<Rightarrow>
        if is_id a_name \<and> \<not> py_in ''primary key'' (ascii_lower a_type)
        then (a_name, a_type @ '' PRIMARY KEY'')
        else (a_name, a_type))"

definition with_primary_key :: "(string \<times> string) list \<Rightarrow> (string \<times> string) list" where
  "with_primary_key attrs =
     (if \<not> list_ex (\<lambda>a. is_id (fst a)) attrs
      then (''id'', ''INT PRIMARY KEY'') # attrs
      else map mark_primary_key attrs)"

definition class_attrs :: "element \<Rightarrow> (string \<times> string) list" where
  "class_attrs elem = with_primary_key (owned_attributes (findall elem ''ownedAttribute''))"

text \<open>
  The parser's two dictionaries, in insertion order: class id to class name, and class
  name to attributes. Assigning to a key that is there keeps its place.
\<close>

type_synonym class_ids = "(string \<times> string) list"
type_synonym classes = "(string \<times> (string \<times> string) list) list"

fun parse_classes_loop :: "class_ids \<times> classes \<Rightarrow> element list \<Rightarrow> class_ids \<times> classes" where
  "parse_classes_loop st [] = st"
| "parse_classes_loop (ids, cls) (elem # rest) =
     (if py_endswith ''packagedElement'' (tag elem) \<and> get_attrib elem ''type'' = Some ''uml:Class''
      then
        (let class_id = get_attrib elem ''id'';
             class_name = attrib_get elem ''name''
         in if \<not> truthy class_id \<or> \<not> truthy class_name then parse_classes_loop (ids, cls) rest
            else parse_classes_loop
                   (AList.update (the class_id) (the class_name) ids,
                    AList.update (the class_name) (class_attrs elem) cls) rest)
      else parse_classes_loop (ids, cls) rest)"

definition parse_classes :: "element \<Rightarrow> class_ids \<times> classes" where
  "parse_classes root = parse_classes_loop ([], []) (iter root)"

subsection \<open>Associations\<close>

text \<open>
  An association as the parser stores it: for each of the two ends the class id it
  names (if any), the role name, the lower bound and the upper bound, -1 standing for
  unbounded.
\<close>

type_synonym association = "string option \<times> string \<times> int \<times> int \<times> string option \<times> string \<times> int \<times> int"

text \<open>
  The texts of the bounds of an end, with the defaults for a missing attribute:
  \<^verbatim>\<open>e.attrib.get('lower', '0')\<close> and \<^verbatim>\<open>e.attrib.get('upper', '1')\<close>.
\<close>

definition lower_text :: "element \<Rightarrow> string" where
  "lower_text e = (case attrib_get e ''lower'' of None \<Rightarrow> ''0'' | Some v \<Rightarrow> v)"

definition upper_text :: "element \<Rightarrow> string" where
  "upper_text e = (case attrib_get e ''upper'' of None \<Rightarrow> ''1'' | Some v \<Rightarrow> v)"

text \<open>
  One end. The lower bound goes through \<^verbatim>\<open>int\<close>, which raises ValueError. The
  upper bound goes through \<^verbatim>\<open>int\<close> only when \<^verbatim>\<open>isdigit\<close> holds of it, and that
  call can raise as well; otherwise the upper bound is -1.
\<close>

definition parse_end :: "python \<Rightarrow> element \<Rightarrow> string \<Rightarrow> error + (string option \<times> string \<times> int \<times> int)" where
  "parse_end py e default_name =
     (let type = attrib_get e ''type'';
          name = the (py_or (attrib_get e ''name'') (Some default_name))
      in case str_int py (lower_text e) of
           None \<Rightarrow> Inl ValueError
         | Some lower \<Rightarrow>
             (let upper_raw = upper_text e in
              if str_isdigit py upper_raw then
                (case str_int py upper_raw of
                   None \<Rightarrow> Inl ValueError
                 | Some upper \<Rightarrow> Inr (type, name, lower, upper))
              else Inr (type, name, lower, -1)))"

fun parse_associations_loop :: "python \<Rightarrow> association list \<Rightarrow> element list \<Rightarrow> error + association list" where
  "parse_associations_loop py acc [] = Inr acc"
| "parse_associations_loop py acc (elem # rest) =
     (if py_endswith ''packagedElement'' (tag elem) \<and> get_attrib elem ''type'' = Some ''uml:Association''
      then
        (case findall elem ''ownedEnd'' of
           [e1, e2] \<Rightarrow>
             (case parse_end py e1 ''ref1'' of
                Inl err \<Rightarrow> Inl err
              | Inr (type1, name1, lower1, upper1) \<Rightarrow>
                  (case parse_end py e2 ''ref2'' of
                     Inl err \<Rightarrow> Inl err
                   | Inr (type2, name2, lower2, upper2) \<Rightarrow>
                       parse_associations_loop py
                         (acc @ [(type1, name1, lower1, upper1, type2, name2, lower2, upper2)]) rest))
         | _ \<Rightarrow> parse_associations_loop py acc rest)
      else parse_associations_loop py acc rest)"

definition parse_associations :: "python \<Rightarrow> element \<Rightarrow> error + association list" where
  "parse_associations py root = parse_associations_loop py [] (iter root)"

subsection \<open>The script\<close>

text \<open>One \<^verbatim>\<open>CREATE TABLE\<close> statement for a class: a line for each attribute.\<close>

definition attr_line :: "string \<times> string \<Rightarrow> string" where
  "attr_line a =
     (case a of (attr_name, sql_type) \<Rightarrow>
        (let not_null = (if \<not> py_in ''PRIMARY KEY'' (ascii_upper sql_type) then '' NOT NULL'' else [])
         in ''  `'' @ attr_name @ ''` '' @ sql_type @ not_null))"

definition newline :: string where
  "newline = [CHR 0x0A]"

definition create_table_sql :: "string \<Rightarrow> (string \<times> string) list \<Rightarrow> string" where
  "create_table_sql class_name attrs =
     py_join newline
       [''CREATE TABLE `'' @ class_name @ ''` ('',
        py_join ('','' @ newline) (map attr_line attrs),
        '');'']"

text \<open>The two tests on the upper bounds, as the source writes them.\<close>

definition many_to_many :: "int \<Rightarrow> int \<Rightarrow> bool" where
  "many_to_many u1 u2 = ((u1 = -1 \<and> u2 = -1) \<or> (u1 = -1 \<and> u2 > 1) \<or> (u2 = -1 \<and> u1 > 1))"

definition one_to_many :: "int \<Rightarrow> int \<Rightarrow> bool" where
  "one_to_many u1 u2 = ((u1 = 1 \<and> (u2 = -1 \<or> u2 > 1)) \<or> (u2 = 1 \<and> (u1 = -1 \<or> u1 > 1)))"

definition join_table_sql :: "python \<Rightarrow> string \<Rightarrow> string \<Rightarrow> string" where
  "join_table_sql py c1 c2 =
     (let join_table = c1 @ ''_'' @ c2 @ ''_join'' in
      py_join newline
        [''CREATE TABLE `'' @ join_table @ ''` ('',
         ''  `'' @ str_lower py c1 @ ''_id` INT NOT NULL,'',
         ''  `'' @ str_lower py c2 @ ''_id` INT NOT NULL,'',
         ''  PRIMARY KEY (`'' @ str_lower py c1 @ ''_id`, `'' @ str_lower py c2 @ ''_id`),'',
         ''  FOREIGN KEY (`'' @ str_lower py c1 @ ''_id`) REFERENCES `'' @ c1 @ ''`(`id`),'',
         ''  FOREIGN KEY (`'' @ str_lower py c2 @ ''_id`) REFERENCES `'' @ c2 @ ''`(`id`)'',
         '');''])"

text \<open>The name of the new column: the role name of the end, or the table's name in lower case.\<close>

definition fk_column :: "python \<Rightarrow> string \<Rightarrow> string \<Rightarrow> string" where
  "fk_column py n c = (if n \<noteq> [] then n @ ''_id'' else str_lower py c @ ''_id'')"

definition fk_statements :: "string \<Rightarrow> string \<Rightarrow> string \<Rightarrow> string list" where
  "fk_statements fk_table fk_col ref_table =
     [''ALTER TABLE `'' @ fk_table @ ''` ADD COLUMN `'' @ fk_col @ ''` INT;'',
      ''ALTER TABLE `'' @ fk_table @ ''` ADD FOREIGN KEY (`'' @ fk_col @ ''`) REFERENCES `''
        @ ref_table @ ''`(`id`);'']"

text \<open>The statements of one association between the classes \<open>c1\<close> and \<open>c2\<close>.\<close>

definition association_sql :: "python \<Rightarrow> string \<Rightarrow> string \<Rightarrow> int \<Rightarrow> string \<Rightarrow> string \<Rightarrow> int \<Rightarrow> string list" where
  "association_sql py c1 n1 u1 c2 n2 u2 =
     (if many_to_many u1 u2 then [join_table_sql py c1 c2]
      else if one_to_many u1 u2 then
        (if u1 = 1 then fk_statements c2 (fk_column py n1 c1) c1
         else fk_statements c1 (fk_column py n2 c2) c2)
      else fk_statements c1 (fk_column py n2 c2) c2)"

text \<open>\<^verbatim>\<open>class_ids.get(t)\<close> for the class id of an end, which may be missing.\<close>

definition class_ids_get :: "class_ids \<Rightarrow> string option \<Rightarrow> string option" where
  "class_ids_get ids t = (case t of None \<Rightarrow> None | Some k \<Rightarrow> map_of ids k)"

text \<open>An association whose classes are not both known adds nothing.\<close>

definition association_statements :: "python \<Rightarrow> class_ids \<Rightarrow> association \<Rightarrow> string list" where
  "association_statements py ids a =
     (case a of (t1, n1, l1, u1, t2, n2, l2, u2) \<Rightarrow>
        (let c1 = class_ids_get ids t1; c2 = class_ids_get ids t2
         in if \<not> truthy c1 \<or> \<not> truthy c2 then []
            else association_sql py (the c1) n1 u1 (the c2) n2 u2))"

fun generate_sql_associations :: "python \<Rightarrow> class_ids \<Rightarrow> string list \<Rightarrow> association list \<Rightarrow> string list" where
  "generate_sql_associations py ids sql_statements [] = sql_statements"
| "generate_sql_associations py ids sql_statements (a # rest) =
     generate_sql_associations py ids (sql_statements @ association_statements py ids a) rest"

definition generate_sql :: "python \<Rightarrow> class_ids \<Rightarrow> classes \<Rightarrow> association list \<Rightarrow> string list" where
  "generate_sql py ids cls associations =
     generate_sql_associations py ids (map (\<lambda>(class_name, attrs). create_table_sql class_name attrs) cls)
       associations"

text \<open>
  The conversion of a parsed document, and the entry point, which parses the text first.
  The XML parser is the library's: \<open>fromstring\<close> stands for
  \<^verbatim>\<open>ET.fromstring\<close>, which returns the root element or raises ParseError.
\<close>

definition uml_to_sql :: "python \<Rightarrow> element \<Rightarrow> error + string" where
  "uml_to_sql py root =
     (case parse_classes root of (ids, cls) \<Rightarrow>
        (case parse_associations py root of
           Inl err \<Rightarrow> Inl err
         | Inr associations \<Rightarrow> Inr (py_join (newline @ newline) (generate_sql py ids cls associations))))"

definition generate_sql_from_uml_content :: "python \<Rightarrow> (string \<Rightarrow> error + element) \<Rightarrow> string \<Rightarrow> error + string" where
  "generate_sql_from_uml_content py fromstring xml_content =
     (case fromstring xml_content of
        Inl err \<Rightarrow> Inl err
      | Inr root \<Rightarrow> uml_to_sql py root)"

section \<open>Class diagram to schema markup\<close>

text \<open>
  The substitution \<^verbatim>\<open>re.sub(r'\sPRIMARY\s+KEY|\sNOT\s+NULL', '', sql_type)\<close>, ignoring
  case. \<open>match_marker w1 w2 s\<close> matches one alternative at the start of \<open>s\<close>: a white
  space character, the first word, white space, the second word; it returns what
  follows the match. The white space between the words is taken as far as it goes, which
  is the only way the second word can follow.
\<close>

definition match_literal :: "string \<Rightarrow> string \<Rightarrow> string option" where
  "match_literal p s =
     (if length p \<le> length s \<and> ascii_upper (take (length p) s) = ascii_upper p
      then Some (drop (length p) s) else None)"

definition match_spaces :: "string \<Rightarrow> string option" where
  "match_spaces s =
     (case s of [] \<Rightarrow> None
      | c # cs \<Rightarrow> if py_isspace c then Some (dropWhile py_isspace cs) else None)"

definition match_marker :: "string \<Rightarrow> string \<Rightarrow> string \<Rightarrow> string option" where
  "match_marker w1 w2 s =
     (case s of [] \<Rightarrow> None
      | c # cs \<Rightarrow>
          if py_isspace c then
            do { r1 \<leftarrow> match_literal w1 cs; r2 \<leftarrow> match_spaces r1; match_literal w2 r2 }
          else None)"

definition match_markers :: "string \<Rightarrow> string option" where
  "match_markers s =
     (case match_marker ''PRIMARY'' ''KEY'' s of
        Some r \<Rightarrow> Some r
      | None \<Rightarrow> match_marker ''NOT'' ''NULL'' s)"

function strip_markers :: "string \<Rightarrow> string" where
  "strip_markers [] = []"
| "strip_markers (c # cs) =
     (case match_markers (c # cs) of
        Some r \<Rightarrow> strip_markers r
      | None \<Rightarrow> c # strip_markers cs)"
  by pat_completeness auto

lemma match_literal_length: "match_literal p s = Some r \<Longrightarrow> length r \<le> length s"
  by (auto simp: match_literal_def split: if_splits)

lemma match_spaces_length: "match_spaces s = Some r \<Longrightarrow> length r < length s"
  by (cases s) (auto simp: match_spaces_def less_Suc_eq_le length_dropWhile_le split: if_splits)

lemma match_marker_length: "match_marker w1 w2 s = Some r \<Longrightarrow> length r < length s"
proof (cases s)
  case Nil
  assume "match_marker w1 w2 s = Some r"
  with Nil show ?thesis by (simp add: match_marker_def)
next
  case (Cons c cs)
  assume "match_marker w1 w2 s = Some r"
  with Cons obtain r1 r2 where
    "match_literal w1 cs = Some r1" "match_spaces r1 = Some r2" "match_literal w2 r2 = Some r"
    by (auto simp: match_marker_def split: if_splits bind_splits)
  then have "length r1 \<le> length cs" "length r2 < length r1" "length r \<le> length r2"
    by (auto dest: match_literal_length match_spaces_length)
  with Cons show ?thesis by simp
qed

lemma match_markers_length: "match_markers s = Some r \<Longrightarrow> length r < length s"
  by (auto simp: match_markers_def dest: match_marker_length split: option.splits)

termination strip_markers
  by (relation "measure length") (auto dest: match_markers_length)

definition py_str_bool :: "bool \<Rightarrow> string" where
  "py_str_bool b = (if b then ''true'' else ''false'')"

definition column_xml :: "string \<times> string \<Rightarrow> element" where
  "column_xml a =
     (case a of (attr_name, sql_type) \<Rightarrow>
        (let is_primary = py_in ''PRIMARY KEY'' (ascii_upper sql_type);
             is_nullable = (\<not> py_in ''NOT NULL'' (ascii_upper sql_type) \<and> \<not> is_primary);
             col_type = strip_markers sql_type
         in Element ''column''
              [(''name'', attr_name), (''type'', col_type),
               (''primaryKey'', py_str_bool is_primary), (''nullable'', py_str_bool is_nullable)] []))"

definition table_xml :: "string \<times> (string \<times> string) list \<Rightarrow> element" where
  "table_xml c = (case c of (class_name, attrs) \<Rightarrow>
                    Element ''table'' [(''name'', class_name)] (map column_xml attrs))"

definition key_column_xml :: "string \<Rightarrow> string \<Rightarrow> string \<Rightarrow> element" where
  "key_column_xml col_name primary nullable =
     Element ''column''
       [(''name'', col_name), (''type'', ''INT''), (''primaryKey'', primary), (''nullable'', nullable)] []"

definition foreign_key_xml :: "string \<Rightarrow> string \<Rightarrow> element" where
  "foreign_key_xml target local_column =
     Element ''foreignKey'' [(''targetTable'', target)]
       [Element ''reference'' [(''localColumn'', local_column), (''foreignColumn'', ''id'')] []]"

definition join_table_xml :: "python \<Rightarrow> string \<Rightarrow> string \<Rightarrow> element" where
  "join_table_xml py c1 c2 =
     (let join_table = c1 @ ''_'' @ c2 @ ''_join'';
          col1_name = str_lower py c1 @ ''_id'';
          col2_name = str_lower py c2 @ ''_id''
      in Element ''table'' [(''name'', join_table)]
           [key_column_xml col1_name ''true'' ''false'',
            foreign_key_xml c1 col1_name,
            key_column_xml col2_name ''true'' ''false'',
            foreign_key_xml c2 col2_name])"

text \<open>
  The loop over the tables of the database that stops at the first one called
  \<open>fk_table\<close> and gives it the column and the foreign key.
\<close>

fun add_foreign_key :: "element list \<Rightarrow> string \<Rightarrow> string \<Rightarrow> string \<Rightarrow> element list" where
  "add_foreign_key [] fk_table fk_col ref_table = []"
| "add_foreign_key (table # rest) fk_table fk_col ref_table =
     (if tag table = ''table'' \<and> attrib_get table ''name'' = Some fk_table
      then SubElement (SubElement table (key_column_xml fk_col ''false'' ''true''))
             (foreign_key_xml ref_table fk_col) # rest
      else table # add_foreign_key rest fk_table fk_col ref_table)"

definition association_xml :: "python \<Rightarrow> element list \<Rightarrow> string \<Rightarrow> string \<Rightarrow> int \<Rightarrow> string \<Rightarrow> string \<Rightarrow> int \<Rightarrow> element list" where
  "association_xml py database c1 n1 u1 c2 n2 u2 =
     (if many_to_many u1 u2 then database @ [join_table_xml py c1 c2]
      else if one_to_many u1 u2 then
        (if u1 = 1 then add_foreign_key database c2 (fk_column py n1 c1) c1
         else add_foreign_key database c1 (fk_column py n2 c2) c2)
      else add_foreign_key database c1 (fk_column py n2 c2) c2)"

definition association_tables :: "python \<Rightarrow> class_ids \<Rightarrow> element list \<Rightarrow> association \<Rightarrow> element list" where
  "association_tables py ids database a =
     (case a of (t1, n1, l1, u1, t2, n2, l2, u2) \<Rightarrow>
        (let c1 = class_ids_get ids t1; c2 = class_ids_get ids t2
         in if \<not> truthy c1 \<or> \<not> truthy c2 then database
            else association_xml py database (the c1) n1 u1 (the c2) n2 u2))"

fun generate_sql_xml_associations :: "python \<Rightarrow> class_ids \<Rightarrow> element list \<Rightarrow> association list \<Rightarrow> element list" where
  "generate_sql_xml_associations py ids database [] = database"
| "generate_sql_xml_associations py ids database (a # rest) =
     generate_sql_xml_associations py ids (association_tables py ids database a) rest"

text \<open>The result is the database element; printing it is left to the library.\<close>

definition generate_sql_xml :: "python \<Rightarrow> class_ids \<Rightarrow> classes \<Rightarrow> association list \<Rightarrow> element" where
  "generate_sql_xml py ids cls associations =
     Element ''database'' [] (generate_sql_xml_associations py ids (map table_xml cls) associations)"

definition uml_to_sql_xml :: "python \<Rightarrow> element \<Rightarrow> error + element" where
  "uml_to_sql_xml py root =
     (case parse_classes root of (ids, cls) \<Rightarrow>
        (case parse_associations py root of
           Inl err \<Rightarrow> Inl err
         | Inr associations \<Rightarrow> Inr (generate_sql_xml py ids cls associations)))"

definition generate_sql_xml_from_uml_content :: "python \<Rightarrow> (string \<Rightarrow> error + element) \<Rightarrow> string \<Rightarrow> error + element" where
  "generate_sql_xml_from_uml_content py fromstring xml_content =
     (case fromstring xml_content of
        Inl err \<Rightarrow> Inl err
      | Inr root \<Rightarrow> uml_to_sql_xml py root)"

section \<open>SQL script to class diagram\<close>

text \<open>
  The SQL text is cut into statements and tokens by the library \<^verbatim>\<open>sqlparse\<close>; the
  model starts from its result: the text of each statement and the tokens of its parse.
  This reader is modelled for ASCII scripts: case, white space and the characters of a
  word are those of ASCII. A token has a type (none for a group), its text, and the
  flags the program reads. \<open>get_name\<close> is None where the call
  \<^verbatim>\<open>get_name().strip(...)\<close> raises AttributeError: the token is not a group, or it
  has no name.
\<close>

datatype ttype = DDL | Keyword | Other

record token =
  token_ttype :: "ttype option"
  token_value :: string
  is_whitespace :: bool
  is_group :: bool
  get_name :: "string option"

definition model_element :: "element list \<Rightarrow> element" where
  "model_element packaged =
     Element ''uml:Model''
       [(''xmlns:xmi'', XMI_NAMESPACE), (''xmlns:uml'', UML_NAMESPACE),
        (''xmi:version'', ''2.1''), (''name'', ''SQLToUML'')] packaged"

text \<open>The type of an attribute from the type of a column, which the caller has put in upper case.\<close>

definition ddl_uml_type :: "string \<Rightarrow> string" where
  "ddl_uml_type col_type =
     (if py_in ''INT'' col_type then ''Integer''
      else if py_in ''CHAR'' col_type \<or> py_in ''TEXT'' col_type \<or> py_in ''VARCHAR'' col_type then ''String''
      else if py_in ''FLOAT'' col_type \<or> py_in ''DOUBLE'' col_type \<or> py_in ''REAL'' col_type then ''Float''
      else if py_in ''BOOLEAN'' col_type then ''Boolean''
      else if py_in ''DATE'' col_type then ''Date''
      else ''String'')"

text \<open>
  \<^verbatim>\<open>re.split(r',\s*(?![^()]*\))', columns_def)\<close>. A comma starts a match, with the white
  space after it, unless the text after it reaches a closing parenthesis before any other
  parenthesis; white space holds no parenthesis, so the test does not depend on how much
  of it the match takes. \<open>closes_first\<close> is that test; \<open>piece\<close> holds the current
  piece, reversed.
\<close>

fun closes_first :: "string \<Rightarrow> bool" where
  "closes_first [] = False"
| "closes_first (c # cs) =
     (if c = CHR '')'' then True else if c = CHR ''('' then False else closes_first cs)"

function re_split_columns :: "string \<Rightarrow> string \<Rightarrow> string list" where
  "re_split_columns piece [] = [rev piece]"
| "re_split_columns piece (c # cs) =
     (if c = CHR '','' \<and> \<not> closes_first cs
      then rev piece # re_split_columns [] (dropWhile py_isspace cs)
      else re_split_columns (c # piece) cs)"
  by pat_completeness auto
termination
  by (relation "measure (\<lambda>(piece, s). length s)") (auto simp: less_Suc_eq_le length_dropWhile_le)

text \<open>The column definitions of a group token: its text without the parentheses at both ends.\<close>

definition column_defs :: "string \<Rightarrow> string list" where
  "column_defs group_value = re_split_columns [] (py_strip_chars ''()'' group_value)"

definition backtick :: string where
  "backtick = ''`''"

text \<open>One column definition: the attribute element, for a definition of at least two words
  that does not start with FOREIGN.\<close>

definition ddl_attribute :: "string \<Rightarrow> string \<Rightarrow> element option" where
  "ddl_attribute table_name col_def =
     (let parts = py_split col_def in
      if length parts \<ge> 2 \<and> ascii_upper (parts ! 0) \<noteq> ''FOREIGN'' then
        (let col_name = py_strip_chars backtick (parts ! 0);
             col_type = ascii_upper (parts ! 1);
             uml_type = ddl_uml_type col_type
         in Some (Element ''ownedAttribute''
                    [(''xmi:id'', ''id_'' @ table_name @ ''_'' @ col_name),
                     (''name'', col_name), (''type'', uml_type)] []))
      else None)"

definition ddl_attributes :: "string \<Rightarrow> token list \<Rightarrow> element list" where
  "ddl_attributes table_name parsed =
     concat (map (\<lambda>t. if is_group t
                       then List.map_filter (ddl_attribute table_name) (column_defs (token_value t))
                       else []) parsed)"

type_synonym ddl_class_map = "(string \<times> string) list"

text \<open>The first pass: a class for each \<^verbatim>\<open>CREATE TABLE\<close> statement.\<close>

fun ddl_classes :: "ddl_class_map \<times> element list \<Rightarrow> token list list
                     \<Rightarrow> error + (ddl_class_map \<times> element list)" where
  "ddl_classes st [] = Inr st"
| "ddl_classes (class_map, packaged) (parsed # rest) =
     (let tokens = filter (\<lambda>t. \<not> is_whitespace t) parsed in
      if length tokens < 3 then ddl_classes (class_map, packaged) rest
      else if token_ttype (tokens ! 0) = Some DDL \<and> ascii_upper (token_value (tokens ! 0)) = ''CREATE'' \<and>
              token_ttype (tokens ! 1) = Some Keyword \<and> ascii_upper (token_value (tokens ! 1)) = ''TABLE''
      then
        (case get_name (tokens ! 2) of
           None \<Rightarrow> Inl AttributeError
         | Some name \<Rightarrow>
             (let table_name = py_strip_chars backtick name;
                  class_id = ''id_'' @ table_name;
                  class_elem = Element ''packagedElement''
                                 [(''xmi:type'', ''uml:Class''), (''xmi:id'', class_id), (''name'', table_name)]
                                 (ddl_attributes table_name parsed)
              in ddl_classes (AList.update table_name class_id class_map, packaged @ [class_elem]) rest))
      else ddl_classes (class_map, packaged) rest)"

text \<open>
  The search for
  \<^verbatim>\<open>ALTER TABLE [`"]?(\w+)[`"]?\s+ADD FOREIGN KEY\s+\([`"]?(\w+)[`"]?\)\s+REFERENCES\s+[`"]?(\w+)[`"]?\s*\([`"]?(\w+)[`"]?\)\<close>,
  ignoring case. Each part of the pattern can match in one way only: a word is followed
  by a character that is not a word character, a quote is not a word character, and the
  text after white space is not white space. So the parts are matched one after the other,
  each taking all it can.
\<close>

definition is_word_char :: "char \<Rightarrow> bool" where
  "is_word_char c =
     (c \<in> set ''abcdefghijklmnopqrstuvwxyzABCDEFGHIJKLMNOPQRSTUVWXYZ0123456789_'')"

definition match_quote :: "string \<Rightarrow> string" where
  "match_quote s = (case s of [] \<Rightarrow> []
                    | c # cs \<Rightarrow> if c = CHR ''`'' \<or> c = CHR 0x22 then cs else c # cs)"

definition match_word :: "string \<Rightarrow> (string \<times> string) option" where
  "match_word s = (if takeWhile is_word_char s = [] then None
                   else Some (takeWhile is_word_char s, dropWhile is_word_char s))"

definition match_name :: "string \<Rightarrow> (string \<times> string) option" where
  "match_name s = do { (w, r) \<leftarrow> match_word (match_quote s); Some (w, match_quote r) }"

definition match_foreign_key :: "string \<Rightarrow> (string \<times> string \<times> string \<times> string) option" where
  "match_foreign_key s =
     do { r \<leftarrow> match_literal ''ALTER TABLE '' s;
          (src_table, r) \<leftarrow> match_name r;
          r \<leftarrow> match_spaces r;
          r \<leftarrow> match_literal ''ADD FOREIGN KEY'' r;
          r \<leftarrow> match_spaces r;
          r \<leftarrow> match_literal ''('' r;
          (src_col, r) \<leftarrow> match_name r;
          r \<leftarrow> match_literal '')'' r;
          r \<leftarrow> match_spaces r;
          r \<leftarrow> match_literal ''REFERENCES'' r;
          r \<leftarrow> match_spaces r;
          (ref_table, r) \<leftarrow> match_name r;
          r \<leftarrow> match_literal ''('' (dropWhile py_isspace r);
          (ref_col, r) \<leftarrow> match_name r;
          r \<leftarrow> match_literal '')'' r;
          Some (src_table, src_col, ref_table, ref_col) }"

fun search_foreign_key :: "string \<Rightarrow> (string \<times> string \<times> string \<times> string) option" where
  "search_foreign_key [] = match_foreign_key []"
| "search_foreign_key (c # cs) =
     (case match_foreign_key (c # cs) of
        Some m \<Rightarrow> Some m
      | None \<Rightarrow> search_foreign_key cs)"

text \<open>The association of a foreign key: the end of the referenced class, then the end of
  the referencing class.\<close>

definition owned_end :: "string \<Rightarrow> string \<Rightarrow> string \<Rightarrow> string \<Rightarrow> string \<Rightarrow> element" where
  "owned_end end_id type name lower upper =
     Element ''ownedEnd''
       [(''xmi:id'', end_id), (''type'', type), (''name'', name), (''lower'', lower), (''upper'', upper)] []"

definition ddl_association :: "ddl_class_map \<Rightarrow> nat \<Rightarrow> string \<Rightarrow> string \<Rightarrow> element" where
  "ddl_association class_map assoc_count src_table ref_table =
     Element ''packagedElement''
       [(''xmi:type'', ''uml:Association''), (''xmi:id'', ''assoc_'' @ py_str_nat assoc_count)]
       [owned_end (''e'' @ py_str_nat (assoc_count + 1) @ ''a'') (the (map_of class_map ref_table))
          (ascii_lower ref_table) ''1'' ''1'',
        owned_end (''e'' @ py_str_nat (assoc_count + 1) @ ''b'') (the (map_of class_map src_table))
          (ascii_lower src_table) ''0'' ''-1'']"

text \<open>The second pass, over the texts of the statements.\<close>

fun ddl_associations :: "ddl_class_map \<Rightarrow> nat \<times> element list \<Rightarrow> string list \<Rightarrow> nat \<times> element list" where
  "ddl_associations class_map st [] = st"
| "ddl_associations class_map (assoc_count, packaged) (stmt # rest) =
     (let stmt_upper = ascii_upper stmt in
      if py_in ''FOREIGN KEY'' stmt_upper \<and> py_in ''REFERENCES'' stmt_upper then
        (case search_foreign_key stmt of
           Some (src_table, src_col, ref_table, ref_col) \<Rightarrow>
             if map_of class_map src_table \<noteq> None \<and> map_of class_map ref_table \<noteq> None
             then ddl_associations class_map
                    (assoc_count + 1, packaged @ [ddl_association class_map assoc_count src_table ref_table])
                    rest
             else ddl_associations class_map (assoc_count, packaged) rest
         | None \<Rightarrow> ddl_associations class_map (assoc_count, packaged) rest)
      else ddl_associations class_map (assoc_count, packaged) rest)"

text \<open>
  The conversion, from the statements that \<^verbatim>\<open>sqlparse.split\<close> returns, each with
  the tokens of its parse. The result is the model element before it is printed.
\<close>

definition generate_uml_from_sql :: "(string \<times> token list) list \<Rightarrow> error + element" where
  "generate_uml_from_sql statements =
     (case ddl_classes ([], []) (map snd statements) of
        Inl err \<Rightarrow> Inl err
      | Inr (class_map, packaged) \<Rightarrow>
          Inr (model_element (snd (ddl_associations class_map (1, packaged) (map fst statements)))))"

section \<open>Schema markup to class diagram\<close>

text \<open>The type of an attribute from the type of a column, as the markup gives it.\<close>

definition schema_uml_type :: "string \<Rightarrow> string" where
  "schema_uml_type col_type =
     (if py_in ''INT'' col_type \<or> py_in ''BIGINT'' col_type then ''Integer''
      else if py_in ''CHAR'' col_type \<or> py_in ''TEXT'' col_type \<or> py_in ''VARCHAR'' col_type then ''String''
      else if py_in ''FLOAT'' col_type \<or> py_in ''DOUBLE'' col_type \<or> py_in ''REAL'' col_type then ''Float''
      else if py_in ''BOOLEAN'' col_type then ''Boolean''
      else if py_in ''DATE'' col_type then ''Date''
      else ''String'')"

text \<open>
  A name that is missing in the markup is None in Python. An f-string prints it as
  \<^verbatim>\<open>None\<close>; as the value of an attribute it makes the printing of the model raise
  TypeError at the end of the conversion, which the flag \<open>unprintable\<close> records.
\<close>

definition py_str :: "string option \<Rightarrow> string" where
  "py_str v = (case v of None \<Rightarrow> ''None'' | Some s \<Rightarrow> s)"

fun schema_attributes :: "string \<Rightarrow> element list \<times> bool \<Rightarrow> element list \<Rightarrow> error + (element list \<times> bool)" where
  "schema_attributes class_id st [] = Inr st"
| "schema_attributes class_id (attrs, unprintable) (column # rest) =
     (let col_name = attrib_get column ''name'' in
      case attrib_get column ''type'' of
        None \<Rightarrow> Inl TypeError
      | Some col_type \<Rightarrow>
          schema_attributes class_id
            (attrs @ [Element ''ownedAttribute''
                        [(''xmi:id'', ''attr_'' @ class_id @ ''_'' @ py_str col_name),
                         (''name'', py_str col_name), (''type'', schema_uml_type col_type)] []],
             unprintable \<or> col_name = None)
            rest)"

type_synonym schema_class_map = "(string option \<times> string) list"

text \<open>The first pass: a class for each table, numbered from \<open>class_count\<close>.\<close>

fun schema_classes :: "schema_class_map \<times> nat \<times> element list \<times> bool \<Rightarrow> element list
                        \<Rightarrow> error + (schema_class_map \<times> nat \<times> element list \<times> bool)" where
  "schema_classes st [] = Inr st"
| "schema_classes (class_map, class_count, packaged, unprintable) (table # rest) =
     (let table_name = attrib_get table ''name'';
          class_id = ''class_'' @ py_str_nat class_count
      in case schema_attributes class_id ([], unprintable \<or> table_name = None) (findall table ''column'') of
           Inl err \<Rightarrow> Inl err
         | Inr (attrs, unprintable') \<Rightarrow>
             schema_classes
               (AList.update table_name class_id class_map, class_count + 1,
                packaged @ [Element ''packagedElement''
                              [(''xmi:type'', ''uml:Class''), (''xmi:id'', class_id),
                               (''name'', py_str table_name)] attrs],
                unprintable')
               rest)"

text \<open>
  The association of one foreign key of a table. The association element is made before
  the foreign key is asked for its reference; without one it stays without ends. The
  names of the ends call \<^verbatim>\<open>lower()\<close> on the table names, which raises AttributeError
  on None.
\<close>

definition schema_association :: "python \<Rightarrow> string \<Rightarrow> string \<Rightarrow> string \<Rightarrow> string \<Rightarrow> string \<Rightarrow> element" where
  "schema_association py assoc_id target_class_id target_table source_class_id table_name =
     Element ''packagedElement''
       [(''xmi:type'', ''uml:Association''), (''xmi:id'', assoc_id)]
       [owned_end (assoc_id @ ''_end1'') target_class_id (str_lower py target_table @ ''_ref'') ''1'' ''1'',
        owned_end (assoc_id @ ''_end2'') source_class_id (str_lower py table_name @ ''_ref'') ''0'' ''-1'']"

fun schema_foreign_keys :: "python \<Rightarrow> schema_class_map \<Rightarrow> string option \<Rightarrow> nat \<times> element list \<Rightarrow> element list
                             \<Rightarrow> error + (nat \<times> element list)" where
  "schema_foreign_keys py class_map table_name st [] = Inr st"
| "schema_foreign_keys py class_map table_name (assoc_count, packaged) (fk # rest) =
     (let source_class_id = map_of class_map table_name;
          target_table = attrib_get fk ''targetTable'';
          target_class_id = map_of class_map target_table
      in if \<not> truthy source_class_id \<or> \<not> truthy target_class_id
         then schema_foreign_keys py class_map table_name (assoc_count, packaged) rest
         else
           (let assoc_id = ''assoc_'' @ py_str_nat assoc_count in
            case find_child fk ''reference'' of
              None \<Rightarrow>
                schema_foreign_keys py class_map table_name
                  (assoc_count + 1,
                   packaged @ [Element ''packagedElement''
                                 [(''xmi:type'', ''uml:Association''), (''xmi:id'', assoc_id)] []])
                  rest
            | Some ref \<Rightarrow>
                (case (target_table, table_name) of
                   (Some target, Some source) \<Rightarrow>
                     schema_foreign_keys py class_map table_name
                       (assoc_count + 1,
                        packaged @ [schema_association py assoc_id (the target_class_id) target
                                      (the source_class_id) source])
                       rest
                 | _ \<Rightarrow> Inl AttributeError)))"

fun schema_associations :: "python \<Rightarrow> schema_class_map \<Rightarrow> nat \<times> element list \<Rightarrow> element list
                             \<Rightarrow> error + (nat \<times> element list)" where
  "schema_associations py class_map st [] = Inr st"
| "schema_associations py class_map st (table # rest) =
     (case schema_foreign_keys py class_map (attrib_get table ''name'') st (findall table ''foreignKey'') of
        Inl err \<Rightarrow> Inl err
      | Inr st' \<Rightarrow> schema_associations py class_map st' rest)"

text \<open>The conversion of a parsed document; the result is the model element before it is printed.\<close>

definition sql_xml_to_uml :: "python \<Rightarrow> element \<Rightarrow> error + element" where
  "sql_xml_to_uml py root =
     (case schema_classes ([], 1, [], False) (findall root ''table'') of
        Inl err \<Rightarrow> Inl err
      | Inr (class_map, class_count, packaged, unprintable) \<Rightarrow>
          (case schema_associations py class_map (1, packaged) (findall root ''table'') of
             Inl err \<Rightarrow> Inl err
           | Inr (assoc_count, packaged') \<Rightarrow>
               if unprintable then Inl TypeError else Inr (model_element packaged')))"

definition generate_uml_from_sql_xml :: "python \<Rightarrow> (string \<Rightarrow> error + element) \<Rightarrow> string \<Rightarrow> error + element" where
  "generate_uml_from_sql_xml py fromstring sql_xml_content =
     (case fromstring sql_xml_content of
        Inl err \<Rightarrow> Inl err
      | Inr root \<Rightarrow> sql_xml_to_uml py root)"

section \<open>The specification's words\<close>

text \<open>
  The classification of a pair of upper bounds as the specification states it. An upper
  bound is unbounded when it is the sentinel -1.
\<close>

definition unbounded :: "int \<Rightarrow> bool" where
  "unbounded u = (u = -1)"

definition spec_many_to_many :: "int \<Rightarrow> int \<Rightarrow> bool" where
  "spec_many_to_many U1 U2 =
     ((unbounded U1 \<and> unbounded U2) \<or> (unbounded U1 \<and> U2 > 1) \<or> (unbounded U2 \<and> U1 > 1))"

text \<open>Exactly one side has upper bound 1, and the other side is unbounded or greater than 1.\<close>

definition spec_one_to_many :: "int \<Rightarrow> int \<Rightarrow> bool" where
  "spec_one_to_many U1 U2 =
     ((U1 = 1 \<and> U2 \<noteq> 1 \<and> (unbounded U2 \<or> U2 > 1)) \<or>
      (U2 = 1 \<and> U1 \<noteq> 1 \<and> (unbounded U1 \<or> U1 > 1)))"

text \<open>The primary key columns of a table: the attributes whose type carries the marker.\<close>

definition is_primary :: "string \<times> string \<Rightarrow> bool" where
  "is_primary a = py_in ''PRIMARY KEY'' (ascii_upper (snd a))"

text \<open>
  The scenario of the specification: the classes Author (id, name: String) and Book
  (id, title: String), and an association with the ends (Author, upper 1) and
  (Book, upper unbounded), neither with a role name. \<open>lower1\<close> is the text of the
  lower bound of the first end.
\<close>

definition xmi :: "string \<Rightarrow> string" where
  "xmi attrib_name = ''{'' @ XMI_NAMESPACE @ ''}'' @ attrib_name"

definition author_book_model :: "string \<Rightarrow> element" where
  "author_book_model lower1 =
     Element (''{'' @ UML_NAMESPACE @ ''}Model'') [(''name'', ''Library'')]
       [Element ''packagedElement''
          [(xmi ''type'', ''uml:Class''), (xmi ''id'', ''c1''), (''name'', ''Author'')]
          [Element ''ownedAttribute'' [(''name'', ''id'')] [],
           Element ''ownedAttribute'' [(''name'', ''name''), (''type'', ''String'')] []],
        Element ''packagedElement''
          [(xmi ''type'', ''uml:Class''), (xmi ''id'', ''c2''), (''name'', ''Book'')]
          [Element ''ownedAttribute'' [(''name'', ''id'')] [],
           Element ''ownedAttribute'' [(''name'', ''title''), (''type'', ''String'')] []],
        Element ''packagedElement''
          [(xmi ''type'', ''uml:Association''), (xmi ''id'', ''a1'')]
          [Element ''ownedEnd'' [(''type'', ''c1''), (''lower'', lower1), (''upper'', ''1'')] [],
           Element ''ownedEnd'' [(''type'', ''c2''), (''lower'', ''0''), (''upper'', ''-1'')] []]]"

text \<open>
  A model with two associations between Author and Book: the first with the role names
  writer (upper 1) and works (upper *), the second without role names and with both
  upper bounds unbounded.
\<close>

definition library_model :: element where
  "library_model =
     Element (''{'' @ UML_NAMESPACE @ ''}Model'') [(''name'', ''Library'')]
       [Element ''packagedElement''
          [(xmi ''type'', ''uml:Class''), (xmi ''id'', ''c1''), (''name'', ''Author'')]
          [Element ''ownedAttribute'' [(''name'', ''name''), (''type'', ''String'')] []],
        Element ''packagedElement''
          [(xmi ''type'', ''uml:Class''), (xmi ''id'', ''c2''), (''name'', ''Book'')]
          [Element ''ownedAttribute'' [(''name'', ''title''), (''type'', ''String'')] []],
        Element ''packagedElement''
          [(xmi ''type'', ''uml:Association''), (xmi ''id'', ''a1'')]
          [Element ''ownedEnd'' [(''type'', ''c1''), (''name'', ''writer''), (''lower'', ''1''), (''upper'', ''1'')] [],
           Element ''ownedEnd'' [(''type'', ''c2''), (''name'', ''works''), (''upper'', ''*'')] []],
        Element ''packagedElement''
          [(xmi ''type'', ''uml:Association''), (xmi ''id'', ''a2'')]
          [Element ''ownedEnd'' [(''type'', ''c1''), (''upper'', ''*'')] [],
           Element ''ownedEnd'' [(''type'', ''c2''), (''upper'', ''-1'')] []]]"

text \<open>A decimal integer string: an optional sign, then one or more decimal digits.\<close>

definition decimal_integer_string :: "string \<Rightarrow> bool" where
  "decimal_integer_string s =
     (case s of
        [] \<Rightarrow> False
      | c # cs \<Rightarrow> if c = CHR ''+'' \<or> c = CHR ''-'' then ascii_isdigit cs else ascii_isdigit s)"

text \<open>
  An association element, as the parser recognises it. An end whose lower bound is
  present and is rejected by \<^verbatim>\<open>int\<close>. An end for which some call of \<^verbatim>\<open>int\<close>
  raises: the one for the lower bound, or the one for an upper bound of which
  \<^verbatim>\<open>isdigit\<close> holds. An association element that the parser reads (one with
  exactly two ends) with such an end.
\<close>

definition is_association :: "element \<Rightarrow> bool" where
  "is_association elem =
     (py_endswith ''packagedElement'' (tag elem) \<and> get_attrib elem ''type'' = Some ''uml:Association'')"

definition rejected_lower :: "python \<Rightarrow> element \<Rightarrow> bool" where
  "rejected_lower py e =
     (case attrib_get e ''lower'' of None \<Rightarrow> False | Some v \<Rightarrow> str_int py v = None)"

definition end_raises :: "python \<Rightarrow> element \<Rightarrow> bool" where
  "end_raises py e =
     (str_int py (lower_text e) = None \<or>
      (str_isdigit py (upper_text e) \<and> str_int py (upper_text e) = None))"

definition raising_association :: "python \<Rightarrow> element \<Rightarrow> bool" where
  "raising_association py elem =
     (is_association elem \<and>
      (case findall elem ''ownedEnd'' of
         [e1, e2] \<Rightarrow> end_raises py e1 \<or> end_raises py e2
       | _ \<Rightarrow> False))"

text \<open>
  The canonical ends of a reconstructed association: first the end of the referenced
  class with the bounds 1 and 1, then the end of the referencing class with the bounds 0
  and -1.
\<close>

definition is_association_element :: "element \<Rightarrow> bool" where
  "is_association_element e =
     (tag e = ''packagedElement'' \<and> attrib_get e ''xmi:type'' = Some ''uml:Association'')"

definition canonical_ends :: "element \<Rightarrow> string \<Rightarrow> string \<Rightarrow> bool" where
  "canonical_ends assoc referenced_class referencing_class =
     (case children assoc of
        [one, many] \<Rightarrow>
          tag one = ''ownedEnd'' \<and> attrib_get one ''type'' = Some referenced_class \<and>
          attrib_get one ''lower'' = Some ''1'' \<and> attrib_get one ''upper'' = Some ''1'' \<and>
          tag many = ''ownedEnd'' \<and> attrib_get many ''type'' = Some referencing_class \<and>
          attrib_get many ''lower'' = Some ''0'' \<and> attrib_get many ''upper'' = Some ''-1''
      | _ \<Rightarrow> False)"

text \<open>
  The classification of an SQL type as the specification states it: the first of the
  listed words that the type contains, in any case, decides.
\<close>

definition contains_ignoring_case :: "string \<Rightarrow> string \<Rightarrow> bool" where
  "contains_ignoring_case word s = py_in (ascii_upper word) (ascii_upper s)"

definition toPrimitiveType :: "string \<Rightarrow> string" where
  "toPrimitiveType sqlType =
     (if contains_ignoring_case ''INT'' sqlType then ''Integer''
      else if contains_ignoring_case ''CHAR'' sqlType \<or> contains_ignoring_case ''TEXT'' sqlType \<or>
              contains_ignoring_case ''VARCHAR'' sqlType then ''String''
      else if contains_ignoring_case ''FLOAT'' sqlType \<or> contains_ignoring_case ''DOUBLE'' sqlType \<or>
              contains_ignoring_case ''REAL'' sqlType then ''Float''
      else if contains_ignoring_case ''BOOLEAN'' sqlType then ''Boolean''
      else if contains_ignoring_case ''DATE'' sqlType then ''Date''
      else ''String'')"

text \<open>A group token of \<^verbatim>\<open>sqlparse\<close> with the given text, and a table of schema markup.\<close>

definition group_token :: "string \<Rightarrow> token" where
  "group_token text =
     \<lparr>token_ttype = None, token_value = text, is_whitespace = False, is_group = True, get_name = None\<rparr>"

definition schema_table :: "string \<Rightarrow> element list \<Rightarrow> element" where
  "schema_table name content = Element ''table'' [(''name'', name)] content"

text \<open>
  A database that holds a table of the given name; a table that is called so; and a
  table that has become another by receiving more children at its end.
\<close>

definition named :: "string \<Rightarrow> element \<Rightarrow> bool" where
  "named name t = (tag t = ''table'' \<and> attrib_get t ''name'' = Some name)"

definition has_table :: "element list \<Rightarrow> string \<Rightarrow> bool" where
  "has_table database name = (\<exists>t\<in>set database. named name t)"

definition grown :: "element \<Rightarrow> element \<Rightarrow> bool" where
  "grown t t' = (tag t' = tag t \<and> attrib t' = attrib t \<and> prefix (children t) (children t'))"

text \<open>The column and the foreign key that an association gives to a table.\<close>

definition key_children :: "string \<Rightarrow> string \<Rightarrow> element list" where
  "key_children col one =
     [Element ''column''
        [(''name'', col), (''type'', ''INT''), (''primaryKey'', ''false''), (''nullable'', ''true'')] [],
      Element ''foreignKey'' [(''targetTable'', one)]
        [Element ''reference'' [(''localColumn'', col), (''foreignColumn'', ''id'')] []]]"

section \<open>Verified properties\<close>

subsection \<open>The classification of associations\<close>

lemma many_to_many_spec: "many_to_many u1 u2 = spec_many_to_many u1 u2"
  by (simp add: many_to_many_def spec_many_to_many_def unbounded_def)

lemma one_to_many_spec: "(\<not> many_to_many u1 u2 \<and> one_to_many u1 u2) = spec_one_to_many u1 u2"
  by (auto simp: many_to_many_def one_to_many_def spec_one_to_many_def unbounded_def)

text \<open>
  Claim C1. The resolver takes the join-table branch exactly for the pairs of upper bounds
  that the specification calls many-to-many, and the one-to-many branch exactly for the
  pairs with one side equal to 1 and the other unbounded or greater than 1; the two never
  overlap. Every other pair, 1 and 1 among them, takes the default branch, where the table
  of class 1 receives the foreign key that references the table of class 2. This holds
  for the SQL script and for the schema markup.
\<close>

theorem cardinality_resolution:
  "many_to_many u1 u2 = spec_many_to_many u1 u2 \<and>
   (\<not> many_to_many u1 u2 \<and> one_to_many u1 u2) = spec_one_to_many u1 u2 \<and>
   \<not> (spec_many_to_many u1 u2 \<and> spec_one_to_many u1 u2) \<and>
   (spec_many_to_many u1 u2 \<longrightarrow>
      association_sql py c1 n1 u1 c2 n2 u2 = [join_table_sql py c1 c2] \<and>
      association_xml py database c1 n1 u1 c2 n2 u2 = database @ [join_table_xml py c1 c2]) \<and>
   (spec_one_to_many u1 u2 \<longrightarrow>
      association_sql py c1 n1 u1 c2 n2 u2 =
        (if u1 = 1 then fk_statements c2 (fk_column py n1 c1) c1
         else fk_statements c1 (fk_column py n2 c2) c2) \<and>
      association_xml py database c1 n1 u1 c2 n2 u2 =
        (if u1 = 1 then add_foreign_key database c2 (fk_column py n1 c1) c1
         else add_foreign_key database c1 (fk_column py n2 c2) c2)) \<and>
   (\<not> spec_many_to_many u1 u2 \<and> \<not> spec_one_to_many u1 u2 \<longrightarrow>
      association_sql py c1 n1 u1 c2 n2 u2 = fk_statements c1 (fk_column py n2 c2) c2 \<and>
      association_xml py database c1 n1 u1 c2 n2 u2 = add_foreign_key database c1 (fk_column py n2 c2) c2)"
proof -
  have m: "many_to_many u1 u2 = spec_many_to_many u1 u2"
    by (rule many_to_many_spec)
  have o: "(\<not> many_to_many u1 u2 \<and> one_to_many u1 u2) = spec_one_to_many u1 u2"
    by (rule one_to_many_spec)
  have d: "\<not> (spec_many_to_many u1 u2 \<and> spec_one_to_many u1 u2)"
    using m o by blast
  have j: "spec_many_to_many u1 u2 \<longrightarrow>
      association_sql py c1 n1 u1 c2 n2 u2 = [join_table_sql py c1 c2] \<and>
      association_xml py database c1 n1 u1 c2 n2 u2 = database @ [join_table_xml py c1 c2]"
    using m by (simp add: association_sql_def association_xml_def)
  have k: "spec_one_to_many u1 u2 \<longrightarrow>
      association_sql py c1 n1 u1 c2 n2 u2 =
        (if u1 = 1 then fk_statements c2 (fk_column py n1 c1) c1
         else fk_statements c1 (fk_column py n2 c2) c2) \<and>
      association_xml py database c1 n1 u1 c2 n2 u2 =
        (if u1 = 1 then add_foreign_key database c2 (fk_column py n1 c1) c1
         else add_foreign_key database c1 (fk_column py n2 c2) c2)"
    using o by (auto simp: association_sql_def association_xml_def)
  have f: "\<not> spec_many_to_many u1 u2 \<and> \<not> spec_one_to_many u1 u2 \<longrightarrow>
      association_sql py c1 n1 u1 c2 n2 u2 = fk_statements c1 (fk_column py n2 c2) c2 \<and>
      association_xml py database c1 n1 u1 c2 n2 u2 = add_foreign_key database c1 (fk_column py n2 c2) c2"
    using m o by (auto simp: association_sql_def association_xml_def)
  from m o d j k f show ?thesis by blast
qed

theorem cardinality_resolution_witness:
  "\<not> spec_many_to_many 1 1 \<and> \<not> spec_one_to_many 1 1 \<and>
   association_sql ascii_python ''A'' ''ref1'' 1 ''B'' ''ref2'' 1 = fk_statements ''A'' ''ref2_id'' ''B'' \<and>
   spec_many_to_many (-1) 5 \<and>
   association_sql ascii_python ''A'' ''ref1'' (-1) ''B'' ''ref2'' 5 = [join_table_sql ascii_python ''A'' ''B''] \<and>
   spec_one_to_many 3 1 \<and>
   association_sql ascii_python ''A'' ''ref1'' 3 ''B'' ''ref2'' 1 = fk_statements ''A'' ''ref2_id'' ''B''"
proof -
  have a: "\<not> spec_many_to_many 1 1 \<and> \<not> spec_one_to_many 1 1"
    by (simp add: spec_many_to_many_def spec_one_to_many_def unbounded_def)
  have b: "spec_many_to_many (-1) 5"
    by (simp add: spec_many_to_many_def unbounded_def)
  have c: "spec_one_to_many 3 1"
    by (simp add: spec_one_to_many_def unbounded_def)
  show ?thesis
    using a b c
      cardinality_resolution [of 1 1 ascii_python "''A''" "''ref1''" "''B''" "''ref2''" "[]"]
      cardinality_resolution [of "-1" 5 ascii_python "''A''" "''ref1''" "''B''" "''ref2''" "[]"]
      cardinality_resolution [of 3 1 ascii_python "''A''" "''ref1''" "''B''" "''ref2''" "[]"]
    by (simp add: fk_column_def)
qed

subsection \<open>Attributes and the primary key\<close>
















subsection \<open>The associations that the parser returns\<close>

lemma parse_end_name:
  assumes "parse_end py e default_name = Inr (t, n, l, u)" "default_name \<noteq> []"
  shows "n \<noteq> []"
  using assms
  by (auto simp: parse_end_def py_or_def truthy_def Let_def split: option.splits if_splits)

lemma parse_associations_loop_names:
  assumes "parse_associations_loop py acc elems = Inr associations"
    and "\<forall>(t1, n1, l1, u1, t2, n2, l2, u2)\<in>set acc. n1 \<noteq> [] \<and> n2 \<noteq> []"
  shows "\<forall>(t1, n1, l1, u1, t2, n2, l2, u2)\<in>set associations. n1 \<noteq> [] \<and> n2 \<noteq> []"
  using assms
proof (induction elems arbitrary: acc)
  case Nil
  then show ?case by simp
next
  case (Cons elem rest)
  show ?case
  proof (cases "parse_associations_loop py acc (elem # rest) = parse_associations_loop py acc rest")
    case True
    with Cons.prems(1) have "parse_associations_loop py acc rest = Inr associations" by simp
    from Cons.IH [OF this Cons.prems(2)] show ?thesis .
  next
    case False
    then obtain e1 e2 where ends: "findall elem ''ownedEnd'' = [e1, e2]"
      and assoc: "py_endswith ''packagedElement'' (tag elem) \<and> get_attrib elem ''type'' = Some ''uml:Association''"
      by (auto split: if_splits list.splits)
    from Cons.prems(1) ends assoc obtain t1 n1 l1 u1 t2 n2 l2 u2 where
      p1: "parse_end py e1 ''ref1'' = Inr (t1, n1, l1, u1)"
      and p2: "parse_end py e2 ''ref2'' = Inr (t2, n2, l2, u2)"
      and later: "parse_associations_loop py (acc @ [(t1, n1, l1, u1, t2, n2, l2, u2)]) rest = Inr associations"
      by (auto split: sum.splits prod.splits)
    have "n1 \<noteq> []" "n2 \<noteq> []"
      using parse_end_name [OF p1] parse_end_name [OF p2] by simp_all
    with Cons.prems(2)
    have "\<forall>(t1, n1, l1, u1, t2, n2, l2, u2)\<in>set (acc @ [(t1, n1, l1, u1, t2, n2, l2, u2)]). n1 \<noteq> [] \<and> n2 \<noteq> []"
      by auto
    from Cons.IH [OF later this] show ?thesis .
  qed
qed

lemma parsed_names_not_empty:
  assumes "parse_associations py root = Inr associations"
    and "(t1, n1, l1, u1, t2, n2, l2, u2) \<in> set associations"
  shows "n1 \<noteq> [] \<and> n2 \<noteq> []"
  using parse_associations_loop_names [of py "[]" "iter root" associations] assms
  by (auto simp: parse_associations_def)

subsection \<open>The classes that the parser returns\<close>

lemma parse_classes_loop_names:
  assumes "parse_classes_loop (ids, cls) elems = (ids', cls')"
    and "\<forall>k v. map_of ids k = Some v \<longrightarrow> v \<noteq> [] \<and> v \<in> fst ` set cls"
  shows "\<forall>k v. map_of ids' k = Some v \<longrightarrow> v \<noteq> [] \<and> v \<in> fst ` set cls'"
  using assms
proof (induction elems arbitrary: ids cls)
  case Nil
  then show ?case by simp
next
  case (Cons elem rest)
  show ?case
  proof (cases "parse_classes_loop (ids, cls) (elem # rest) = parse_classes_loop (ids, cls) rest")
    case True
    with Cons.prems(1) have "parse_classes_loop (ids, cls) rest = (ids', cls')" by simp
    from Cons.IH [OF this Cons.prems(2)] show ?thesis .
  next
    case False
    then obtain class_id class_name where
      step: "parse_classes_loop (ids, cls) (elem # rest) =
               parse_classes_loop (AList.update class_id class_name ids,
                                   AList.update class_name (class_attrs elem) cls) rest"
      and name: "class_name \<noteq> []"
      by (auto simp: Let_def truthy_def split: if_splits option.splits)
    have "\<forall>k v. map_of (AList.update class_id class_name ids) k = Some v \<longrightarrow>
            v \<noteq> [] \<and> v \<in> fst ` set (AList.update class_name (class_attrs elem) cls)"
      using Cons.prems(2) name by (auto simp: update_conv' dom_update split: if_splits)
    moreover from step Cons.prems(1)
    have "parse_classes_loop (AList.update class_id class_name ids,
                              AList.update class_name (class_attrs elem) cls) rest = (ids', cls')"
      by simp
    ultimately show ?thesis using Cons.IH by blast
  qed
qed

text \<open>A class that an end names has a name, and its table is in the database.\<close>

lemma parsed_classes_have_tables:
  assumes "parse_classes root = (ids, cls)" "class_ids_get ids t = Some c"
  shows "c \<noteq> [] \<and> has_table (map table_xml cls) c"
proof -
  from assms(2) obtain k where "map_of ids k = Some c"
    by (auto simp: class_ids_get_def split: option.splits)
  with parse_classes_loop_names [of "[]" "[]" "iter root" ids cls] assms(1)
  have "c \<noteq> []" "c \<in> fst ` set cls"
    by (auto simp: parse_classes_def)
  then show ?thesis
    by (force simp: has_table_def named_def table_xml_def attrib_get_def split: prod.splits)
qed

subsection \<open>The statements and the tables of one association\<close>

lemma association_known:
  assumes "class_ids_get ids t1 = Some c1" "c1 \<noteq> []" "class_ids_get ids t2 = Some c2" "c2 \<noteq> []"
  shows "association_statements py ids (t1, n1, l1, u1, t2, n2, l2, u2) = association_sql py c1 n1 u1 c2 n2 u2"
    and "association_tables py ids database (t1, n1, l1, u1, t2, n2, l2, u2) =
           association_xml py database c1 n1 u1 c2 n2 u2"
  using assms by (simp_all add: association_statements_def association_tables_def truthy_def)

lemma generate_sql_associations_concat:
  "generate_sql_associations py ids acc associations =
     acc @ concat (map (association_statements py ids) associations)"
  by (induction associations arbitrary: acc) auto

lemma generate_sql_concat:
  "generate_sql py ids cls associations =
     map (\<lambda>(class_name, attrs). create_table_sql class_name attrs) cls @
     concat (map (association_statements py ids) associations)"
  by (simp add: generate_sql_def generate_sql_associations_concat)

lemma generate_sql_split:
  "generate_sql py ids cls (before @ a # after) =
     generate_sql py ids cls before @ association_statements py ids a @
     concat (map (association_statements py ids) after)"
  by (simp add: generate_sql_concat)

lemma generate_sql_xml_associations_append:
  "generate_sql_xml_associations py ids database (xs @ ys) =
     generate_sql_xml_associations py ids (generate_sql_xml_associations py ids database xs) ys"
  by (induction xs arbitrary: database) auto

subsection \<open>The table that receives a foreign key\<close>

lemma add_foreign_key_first:
  assumes "named fk_table table" "\<forall>t\<in>set before. \<not> named fk_table t"
  shows "add_foreign_key (before @ table # after) fk_table fk_col ref_table =
           before @ Element ''table'' (attrib table) (children table @ key_children fk_col ref_table) # after"
  using assms
  by (induction before)
     (auto simp: named_def SubElement_def key_children_def key_column_xml_def foreign_key_xml_def)

lemma add_foreign_key_prefix:
  "has_table xs name \<Longrightarrow>
     add_foreign_key (xs @ ys) name fk_col ref_table = add_foreign_key xs name fk_col ref_table @ ys"
  by (induction xs) (auto simp: has_table_def named_def)

lemma add_foreign_key_has_table:
  "has_table (add_foreign_key database fk_table fk_col ref_table) name = has_table database name"
  by (induction database) (auto simp: has_table_def named_def SubElement_def attrib_get_def)

lemma add_foreign_key_length:
  "length (add_foreign_key database fk_table fk_col ref_table) = length database"
  by (induction database) auto

lemma first_table:
  assumes "has_table database name"
  shows "\<exists>before table after.
           database = before @ table # after \<and> named name table \<and> (\<forall>t\<in>set before. \<not> named name t)"
  using assms split_list_first_prop [of database "named name"]
  unfolding has_table_def by blast

text \<open>What one association does to the database: nothing, a join table at the end, or a
  column and a foreign key in the table of a class that an end names.\<close>

lemma association_tables_cases:
  "association_tables py ids database a = database \<or>
   (\<exists>c1 c2. association_tables py ids database a = database @ [join_table_xml py c1 c2]) \<or>
   (\<exists>t c fk_col ref_table.
      class_ids_get ids t = Some c \<and> c \<noteq> [] \<and>
      association_tables py ids database a = add_foreign_key database c fk_col ref_table)"
proof -
  obtain t1 n1 l1 u1 t2 n2 l2 u2 where fields: "a = (t1, n1, l1, u1, t2, n2, l2, u2)"
    by (metis surj_pair)
  show ?thesis
  proof (cases "truthy (class_ids_get ids t1) \<and> truthy (class_ids_get ids t2)")
    case False
    with fields show ?thesis by (auto simp: association_tables_def)
  next
    case True
    then obtain c1 c2 where c: "class_ids_get ids t1 = Some c1" "c1 \<noteq> []"
      "class_ids_get ids t2 = Some c2" "c2 \<noteq> []"
      by (auto simp: truthy_def split: option.splits)
    have tables: "association_tables py ids database a = association_xml py database c1 n1 u1 c2 n2 u2"
      using association_known(2) [OF c] fields by simp
    consider (join) "association_xml py database c1 n1 u1 c2 n2 u2 = database @ [join_table_xml py c1 c2]"
      | (first) fk_col where "association_xml py database c1 n1 u1 c2 n2 u2 = add_foreign_key database c1 fk_col c2"
      | (second) fk_col where "association_xml py database c1 n1 u1 c2 n2 u2 = add_foreign_key database c2 fk_col c1"
      unfolding association_xml_def by (cases "many_to_many u1 u2"; cases "one_to_many u1 u2"; cases "u1 = 1") auto
    then show ?thesis
    proof cases
      case join
      with tables show ?thesis by auto
    next
      case first
      with tables c(1,2) show ?thesis by (metis (no_types))
    next
      case second
      with tables c(3,4) show ?thesis by (metis (no_types))
    qed
  qed
qed

lemma grown_refl: "grown t t"
  by (simp add: grown_def)

lemma grown_trans: "grown t t' \<Longrightarrow> grown t' t'' \<Longrightarrow> grown t t''"
  by (auto simp: grown_def)

lemma grown_all_refl: "list_all2 grown database database"
  by (simp add: list_all2_refl grown_refl)

lemma grown_SubElement: "grown table (SubElement (SubElement table column) foreign_key)"
  by (simp add: grown_def SubElement_def)

lemma add_foreign_key_grown:
  "list_all2 grown database (add_foreign_key database fk_table fk_col ref_table)"
  by (induction database) (simp_all add: grown_SubElement grown_refl grown_all_refl)

text \<open>The tables that are in the database stay where they are and only receive children.\<close>

lemma generate_sql_xml_associations_grown:
  "\<exists>tables added. generate_sql_xml_associations py ids database associations = tables @ added \<and>
                   list_all2 grown database tables"
proof (induction associations arbitrary: database)
  case Nil
  have "generate_sql_xml_associations py ids database [] = database @ []" by simp
  then show ?case using grown_all_refl by blast
next
  case (Cons a rest)
  consider (same) "association_tables py ids database a = database"
    | (join) c1 c2 where "association_tables py ids database a = database @ [join_table_xml py c1 c2]"
    | (key) c fk_col ref_table where "association_tables py ids database a = add_foreign_key database c fk_col ref_table"
    using association_tables_cases [of py ids database a] by blast
  then show ?case
  proof cases
    case same
    with Cons.IH [of database] show ?thesis by simp
  next
    case join
    from Cons.IH [of "database @ [join_table_xml py c1 c2]"] obtain tables added where
      r: "generate_sql_xml_associations py ids (database @ [join_table_xml py c1 c2]) rest = tables @ added"
      and g: "list_all2 grown (database @ [join_table_xml py c1 c2]) tables"
      by blast
    from g obtain tables' j where "tables = tables' @ j" "list_all2 grown database tables'"
      by (auto simp: list_all2_append1)
    with r join show ?thesis by auto
  next
    case key
    from Cons.IH [of "add_foreign_key database c fk_col ref_table"] obtain tables added where
      r: "generate_sql_xml_associations py ids (add_foreign_key database c fk_col ref_table) rest = tables @ added"
      and g: "list_all2 grown (add_foreign_key database c fk_col ref_table) tables"
      by blast
    have "list_all2 grown database tables"
      using list_all2_trans [of grown grown grown, OF _ add_foreign_key_grown g] grown_trans by blast
    with r key show ?thesis by auto
  qed
qed

text \<open>
  Where every class that an end can name has its table among the first tables of the
  database, what comes after these tables is never changed: a foreign key goes to the
  first table of its name.
\<close>

lemma generate_sql_xml_associations_kept:
  assumes "\<forall>t c. class_ids_get ids t = Some c \<longrightarrow> c \<noteq> [] \<longrightarrow> has_table first c"
  shows "\<exists>first' added. generate_sql_xml_associations py ids (first @ kept) associations = first' @ kept @ added \<and>
                         length first' = length first"
  using assms
proof (induction associations arbitrary: first kept)
  case Nil
  have "generate_sql_xml_associations py ids (first @ kept) [] = first @ kept @ []" by simp
  then show ?case by blast
next
  case (Cons a rest)
  consider (same) "association_tables py ids (first @ kept) a = first @ kept"
    | (join) c1 c2 where "association_tables py ids (first @ kept) a = (first @ kept) @ [join_table_xml py c1 c2]"
    | (key) t c fk_col ref_table where "class_ids_get ids t = Some c" "c \<noteq> []"
        "association_tables py ids (first @ kept) a = add_foreign_key (first @ kept) c fk_col ref_table"
    using association_tables_cases [of py ids "first @ kept" a] by blast
  then show ?case
  proof cases
    case same
    with Cons.IH [OF Cons.prems, of kept] show ?thesis by simp
  next
    case join
    from Cons.IH [OF Cons.prems, of "kept @ [join_table_xml py c1 c2]"] obtain first' added where
      "generate_sql_xml_associations py ids (first @ kept @ [join_table_xml py c1 c2]) rest =
         first' @ (kept @ [join_table_xml py c1 c2]) @ added" "length first' = length first"
      by blast
    with join show ?thesis by auto
  next
    case key
    have "has_table first c" using Cons.prems key(1,2) by blast
    then have step: "association_tables py ids (first @ kept) a = add_foreign_key first c fk_col ref_table @ kept"
      using key(3) add_foreign_key_prefix by simp
    have "\<forall>t c'. class_ids_get ids t = Some c' \<longrightarrow> c' \<noteq> [] \<longrightarrow>
            has_table (add_foreign_key first c fk_col ref_table) c'"
      using Cons.prems by (simp add: add_foreign_key_has_table)
    from Cons.IH [OF this, of kept] obtain first' added where
      "generate_sql_xml_associations py ids (add_foreign_key first c fk_col ref_table @ kept) rest =
         first' @ kept @ added" "length first' = length (add_foreign_key first c fk_col ref_table)"
      by blast
    with step show ?thesis by (auto simp: add_foreign_key_length)
  qed
qed

lemma association_tables_has_table:
  "has_table database name \<Longrightarrow> has_table (association_tables py ids database a) name"
  using association_tables_cases [of py ids database a]
  by (auto simp: add_foreign_key_has_table) (auto simp: has_table_def)

lemma generate_sql_xml_associations_has_table:
  "has_table database name \<Longrightarrow> has_table (generate_sql_xml_associations py ids database associations) name"
  by (induction associations arbitrary: database) (auto simp: association_tables_has_table)

lemma grown_named: "grown t t' \<Longrightarrow> named name t' = named name t"
  by (simp add: grown_def named_def attrib_get_def)

lemma grown_all_not_named:
  "list_all2 grown tables tables' \<Longrightarrow> \<forall>t\<in>set tables. \<not> named name t \<Longrightarrow> \<forall>t\<in>set tables'. \<not> named name t"
  by (induction rule: list_all2_induct) (auto simp: grown_named)

lemma grown_table:
  assumes "grown (Element ''table'' attributes content) t'"
  shows "\<exists>more. t' = Element ''table'' attributes (content @ more)"
proof -
  from assms obtain more where "children t' = content @ more"
    by (auto simp: grown_def prefix_def)
  with assms show ?thesis
    by (cases t') (auto simp: grown_def)
qed

text \<open>The table with its new column and foreign key keeps its place and these children
  until the end of the conversion.\<close>

lemma key_children_stay:
  assumes "\<forall>t\<in>set pre. \<not> named name t"
  shows "\<exists>pre' more post'.
           generate_sql_xml_associations py ids (pre @ Element ''table'' attributes content # post) associations =
             pre' @ Element ''table'' attributes (content @ more) # post' \<and>
           length pre' = length pre \<and> (\<forall>t\<in>set pre'. \<not> named name t)"
proof -
  obtain tables added where
    r: "generate_sql_xml_associations py ids (pre @ Element ''table'' attributes content # post) associations =
          tables @ added"
    and g: "list_all2 grown (pre @ Element ''table'' attributes content # post) tables"
    using generate_sql_xml_associations_grown by blast
  from g obtain pre' rest where t: "tables = pre' @ rest" and gp: "list_all2 grown pre pre'"
    and gr: "list_all2 grown (Element ''table'' attributes content # post) rest"
    by (auto simp: list_all2_append1)
  from gr obtain t' post' where rest: "rest = t' # post'" and gt: "grown (Element ''table'' attributes content) t'"
    by (auto simp: list_all2_Cons1)
  from grown_table [OF gt] obtain more where t': "t' = Element ''table'' attributes (content @ more)"
    by blast
  have "length pre' = length pre"
    using gp by (simp add: list_all2_lengthD)
  moreover have "\<forall>t\<in>set pre'. \<not> named name t"
    using grown_all_not_named [OF gp assms] .
  moreover have "generate_sql_xml_associations py ids (pre @ Element ''table'' attributes content # post) associations =
                   pre' @ Element ''table'' attributes (content @ more) # (post' @ added)"
    using r t rest t' by simp
  ultimately show ?thesis by blast
qed

text \<open>
  Claim C2. Let the parser return an association between two known classes, with one
  upper bound equal to 1 and the other unbounded or greater than 1. Then the script that
  the conversion returns has, after the statements of the classes and of the earlier
  associations, the two statements that add one INT column to the table of the side whose
  upper bound is not 1, and the foreign key from it to the id column of the other table.
  In the schema markup the first table of that name receives one column element and one
  foreignKey element, and has them, where it was, in the database that the conversion
  returns.
\<close>

theorem one_to_many_foreign_key:
  assumes "parse_classes root = (ids, cls)"
    and "parse_associations py root = Inr (before @ (t1, n1, l1, u1, t2, n2, l2, u2) # after)"
    and "class_ids_get ids t1 = Some c1" "class_ids_get ids t2 = Some c2"
    and "spec_one_to_many u1 u2"
    and "many = (if u1 = 1 then c2 else c1)" "one = (if u1 = 1 then c1 else c2)"
    and "col = (if u1 = 1 then n1 else n2) @ ''_id''"
  shows "uml_to_sql py root =
           Inr (py_join (newline @ newline)
                  (generate_sql py ids cls before @
                   [''ALTER TABLE `'' @ many @ ''` ADD COLUMN `'' @ col @ ''` INT;'',
                    ''ALTER TABLE `'' @ many @ ''` ADD FOREIGN KEY (`'' @ col @ ''`) REFERENCES `'' @ one @ ''`(`id`);''] @
                   concat (map (association_statements py ids) after))) \<and>
         (\<exists>pre attributes content post pre' more post'.
            generate_sql_xml_associations py ids (map table_xml cls) before =
              pre @ Element ''table'' attributes content # post \<and>
            named many (Element ''table'' attributes content) \<and> (\<forall>t\<in>set pre. \<not> named many t) \<and>
            generate_sql_xml_associations py ids (map table_xml cls) (before @ [(t1, n1, l1, u1, t2, n2, l2, u2)]) =
              pre @ Element ''table'' attributes (content @ key_children col one) # post \<and>
            uml_to_sql_xml py root =
              Inr (Element ''database'' []
                     (pre' @ Element ''table'' attributes (content @ key_children col one @ more) # post')) \<and>
            length pre' = length pre \<and> (\<forall>t\<in>set pre'. \<not> named many t))"
proof -
  let ?a = "(t1, n1, l1, u1, t2, n2, l2, u2)"
  have c1: "c1 \<noteq> []" "has_table (map table_xml cls) c1" and c2: "c2 \<noteq> []" "has_table (map table_xml cls) c2"
    using parsed_classes_have_tables [OF assms(1)] assms(3,4) by blast+
  have names: "n1 \<noteq> []" "n2 \<noteq> []"
    using parsed_names_not_empty [OF assms(2), of t1 n1 l1 u1 t2 n2 l2 u2] by simp_all
  have branch: "\<not> many_to_many u1 u2" "one_to_many u1 u2"
    using assms(5) one_to_many_spec [of u1 u2] by blast+
  have sql: "association_statements py ids ?a = fk_statements many col one"
    using association_known(1) [OF assms(3) c1(1) assms(4) c2(1)] branch names assms(6-8)
    by (simp add: association_sql_def fk_column_def)
  have xml: "association_tables py ids database ?a = add_foreign_key database many col one" for database
    using association_known(2) [OF assms(3) c1(1) assms(4) c2(1)] branch names assms(6-8)
    by (simp add: association_xml_def fk_column_def)
  have script: "uml_to_sql py root =
           Inr (py_join (newline @ newline)
                  (generate_sql py ids cls before @
                   [''ALTER TABLE `'' @ many @ ''` ADD COLUMN `'' @ col @ ''` INT;'',
                    ''ALTER TABLE `'' @ many @ ''` ADD FOREIGN KEY (`'' @ col @ ''`) REFERENCES `'' @ one @ ''`(`id`);''] @
                   concat (map (association_statements py ids) after)))"
    using assms(1,2) sql
    by (simp add: uml_to_sql_def generate_sql_split fk_statements_def)
  let ?before = "generate_sql_xml_associations py ids (map table_xml cls) before"
  have "has_table (map table_xml cls) many"
    using c1(2) c2(2) assms(6) by simp
  then have "has_table ?before many"
    by (rule generate_sql_xml_associations_has_table)
  from first_table [OF this] obtain pre table post where
    d: "?before = pre @ table # post" and n: "named many table" and f: "\<forall>t\<in>set pre. \<not> named many t"
    by blast
  obtain attributes content where table: "table = Element ''table'' attributes content"
    using n by (cases table) (auto simp: named_def)
  have step: "generate_sql_xml_associations py ids (map table_xml cls) (before @ [?a]) =
                pre @ Element ''table'' attributes (content @ key_children col one) # post"
    using add_foreign_key_first [OF n f, of post col one] d table xml
    by (simp add: generate_sql_xml_associations_append)
  from key_children_stay [OF f, of py ids attributes "content @ key_children col one" post after]
  obtain pre' more post' where
    final: "generate_sql_xml_associations py ids
              (pre @ Element ''table'' attributes (content @ key_children col one) # post) after =
            pre' @ Element ''table'' attributes ((content @ key_children col one) @ more) # post'"
    and len: "length pre' = length pre" and f': "\<forall>t\<in>set pre'. \<not> named many t"
    by blast
  have "generate_sql_xml_associations py ids (map table_xml cls) (before @ ?a # after) =
          pre' @ Element ''table'' attributes (content @ key_children col one @ more) # post'"
    using generate_sql_xml_associations_append [of py ids "map table_xml cls" "before @ [?a]" after] step final
    by simp
  then have markup: "uml_to_sql_xml py root =
              Inr (Element ''database'' []
                     (pre' @ Element ''table'' attributes (content @ key_children col one @ more) # post'))"
    using assms(1,2) by (simp add: uml_to_sql_xml_def generate_sql_xml_def)
  from d table n f step markup len f' script show ?thesis by blast
qed

theorem one_to_many_foreign_key_witness:
  "spec_one_to_many 1 (-1) \<and>
   parse_associations ascii_python library_model =
     Inr [(Some ''c1'', ''writer'', 1, 1, Some ''c2'', ''works'', 0, -1),
          (Some ''c1'', ''ref1'', 0, -1, Some ''c2'', ''ref2'', 0, -1)] \<and>
   uml_to_sql ascii_python library_model =
     Inr (py_join (newline @ newline)
            [create_table_sql ''Author'' [(''id'', ''INT PRIMARY KEY''), (''name'', ''VARCHAR(255)'')],
             create_table_sql ''Book'' [(''id'', ''INT PRIMARY KEY''), (''title'', ''VARCHAR(255)'')],
             ''ALTER TABLE `Book` ADD COLUMN `writer_id` INT;'',
             ''ALTER TABLE `Book` ADD FOREIGN KEY (`writer_id`) REFERENCES `Author`(`id`);'',
             join_table_sql ascii_python ''Author'' ''Book'']) \<and>
   (\<exists>pre' more post'.
      uml_to_sql_xml ascii_python library_model =
        Inr (Element ''database'' []
               (pre' @
                Element ''table'' [(''name'', ''Book'')]
                  ([Element ''column''
                      [(''name'', ''id''), (''type'', ''INT''), (''primaryKey'', ''true''), (''nullable'', ''false'')] [],
                    Element ''column''
                      [(''name'', ''title''), (''type'', ''VARCHAR(255)''), (''primaryKey'', ''false''),
                       (''nullable'', ''true'')] []] @
                   key_children ''writer_id'' ''Author'' @ more) # post')) \<and>
      length pre' = 1)"
proof -
  let ?ids = "[(''c1'', ''Author''), (''c2'', ''Book'')]"
  let ?cls = "[(''Author'', [(''id'', ''INT PRIMARY KEY''), (''name'', ''VARCHAR(255)'')]),
               (''Book'', [(''id'', ''INT PRIMARY KEY''), (''title'', ''VARCHAR(255)'')])]"
  let ?a1 = "(Some ''c1'', ''writer'', 1::int, 1::int, Some ''c2'', ''works'', 0::int, -1::int)"
  let ?a2 = "(Some ''c1'', ''ref1'', 0::int, -1::int, Some ''c2'', ''ref2'', 0::int, -1::int)"
  let ?author = "Element ''table'' [(''name'', ''Author'')]
                   [Element ''column''
                      [(''name'', ''id''), (''type'', ''INT''), (''primaryKey'', ''true''), (''nullable'', ''false'')] [],
                    Element ''column''
                      [(''name'', ''name''), (''type'', ''VARCHAR(255)''), (''primaryKey'', ''false''),
                       (''nullable'', ''true'')] []]"
  let ?book = "Element ''table'' [(''name'', ''Book'')]
                   [Element ''column''
                      [(''name'', ''id''), (''type'', ''INT''), (''primaryKey'', ''true''), (''nullable'', ''false'')] [],
                    Element ''column''
                      [(''name'', ''title''), (''type'', ''VARCHAR(255)''), (''primaryKey'', ''false''),
                       (''nullable'', ''true'')] []]"
  have classes: "parse_classes library_model = (?ids, ?cls)"
    by code_simp
  have parsed: "parse_associations ascii_python library_model = Inr [?a1, ?a2]"
    by code_simp
  then have associations: "parse_associations ascii_python library_model = Inr ([] @ ?a1 # [?a2])"
    by simp
  have h1: "class_ids_get ?ids (Some ''c1'') = Some ''Author''"
    and h2: "class_ids_get ?ids (Some ''c2'') = Some ''Book''"
    by (simp_all add: class_ids_get_def)
  have h3: "spec_one_to_many 1 (-1)"
    by (simp add: spec_one_to_many_def unbounded_def)
  note inst = one_to_many_foreign_key [OF classes associations h1 h2 h3 refl refl refl]
  have sql: "association_statements ascii_python ?ids ?a2 = [join_table_sql ascii_python ''Author'' ''Book'']"
    by code_simp
  have tables: "map table_xml ?cls = [?author, ?book]"
    by code_simp
  have other: "\<not> named ''Book'' ?author"
    by (simp add: named_def attrib_get_def)
  from inst [THEN conjunct1] sql
  have script: "uml_to_sql ascii_python library_model =
     Inr (py_join (newline @ newline)
            [create_table_sql ''Author'' [(''id'', ''INT PRIMARY KEY''), (''name'', ''VARCHAR(255)'')],
             create_table_sql ''Book'' [(''id'', ''INT PRIMARY KEY''), (''title'', ''VARCHAR(255)'')],
             ''ALTER TABLE `Book` ADD COLUMN `writer_id` INT;'',
             ''ALTER TABLE `Book` ADD FOREIGN KEY (`writer_id`) REFERENCES `Author`(`id`);'',
             join_table_sql ascii_python ''Author'' ''Book''])"
    by (simp add: generate_sql_def)
  from inst [THEN conjunct2] obtain pre attributes content post pre' more post' where
    d: "[?author, ?book] = pre @ Element ''table'' attributes content # post"
    and n: "named ''Book'' (Element ''table'' attributes content)"
    and r: "uml_to_sql_xml ascii_python library_model =
              Inr (Element ''database'' []
                     (pre' @ Element ''table'' attributes (content @ key_children ''writer_id'' ''Author'' @ more) # post'))"
    and l: "length pre' = length pre"
    unfolding tables by auto
  from d n other have "pre = [?author] \<and> Element ''table'' attributes content = ?book"
    by (auto simp: Cons_eq_append_conv)
  with r l have "\<exists>pre' more post'.
      uml_to_sql_xml ascii_python library_model =
        Inr (Element ''database'' []
               (pre' @
                Element ''table'' [(''name'', ''Book'')]
                  ([Element ''column''
                      [(''name'', ''id''), (''type'', ''INT''), (''primaryKey'', ''true''), (''nullable'', ''false'')] [],
                    Element ''column''
                      [(''name'', ''title''), (''type'', ''VARCHAR(255)''), (''primaryKey'', ''false''),
                       (''nullable'', ''true'')] []] @
                   key_children ''writer_id'' ''Author'' @ more) # post')) \<and>
      length pre' = 1"
    by auto
  with h3 parsed script show ?thesis by blast
qed

text \<open>
  Claim C3. Let the parser return an association between two known classes C1 and C2
  with both upper bounds unbounded. Then the script that the conversion returns has,
  after the statements of the classes and of the earlier associations, one CREATE TABLE
  statement for the table C1_C2_join, with the columns c1_id and c2_id (the names in
  lower case as \<^verbatim>\<open>str.lower\<close> gives them), the primary key over both, and a foreign key
  from each to the id column of its class. In the schema markup one table element of that
  name is added behind the tables that are there, with the two columns, both in the
  primary key, and the two foreign keys; the database that the conversion returns has it
  at that place, unchanged.
\<close>

theorem many_to_many_join_table:
  assumes "parse_classes root = (ids, cls)"
    and "parse_associations py root = Inr (before @ (t1, n1, l1, u1, t2, n2, l2, u2) # after)"
    and "class_ids_get ids t1 = Some c1" "class_ids_get ids t2 = Some c2"
    and "unbounded u1" "unbounded u2"
    and "join = Element ''table'' [(''name'', c1 @ ''_'' @ c2 @ ''_join'')]
              [Element ''column''
                 [(''name'', str_lower py c1 @ ''_id''), (''type'', ''INT''),
                  (''primaryKey'', ''true''), (''nullable'', ''false'')] [],
               Element ''foreignKey'' [(''targetTable'', c1)]
                 [Element ''reference'' [(''localColumn'', str_lower py c1 @ ''_id''), (''foreignColumn'', ''id'')] []],
               Element ''column''
                 [(''name'', str_lower py c2 @ ''_id''), (''type'', ''INT''),
                  (''primaryKey'', ''true''), (''nullable'', ''false'')] [],
               Element ''foreignKey'' [(''targetTable'', c2)]
                 [Element ''reference'' [(''localColumn'', str_lower py c2 @ ''_id''), (''foreignColumn'', ''id'')] []]]"
  shows "uml_to_sql py root =
           Inr (py_join (newline @ newline)
                  (generate_sql py ids cls before @
                   [py_join newline
                      [''CREATE TABLE `'' @ c1 @ ''_'' @ c2 @ ''_join` ('',
                       ''  `'' @ str_lower py c1 @ ''_id` INT NOT NULL,'',
                       ''  `'' @ str_lower py c2 @ ''_id` INT NOT NULL,'',
                       ''  PRIMARY KEY (`'' @ str_lower py c1 @ ''_id`, `'' @ str_lower py c2 @ ''_id`),'',
                       ''  FOREIGN KEY (`'' @ str_lower py c1 @ ''_id`) REFERENCES `'' @ c1 @ ''`(`id`),'',
                       ''  FOREIGN KEY (`'' @ str_lower py c2 @ ''_id`) REFERENCES `'' @ c2 @ ''`(`id`)'',
                       '');'']] @
                   concat (map (association_statements py ids) after))) \<and>
         generate_sql_xml_associations py ids (map table_xml cls) (before @ [(t1, n1, l1, u1, t2, n2, l2, u2)]) =
           generate_sql_xml_associations py ids (map table_xml cls) before @ [join] \<and>
         (\<exists>pre post.
            uml_to_sql_xml py root = Inr (Element ''database'' [] (pre @ join # post)) \<and>
            length pre = length (generate_sql_xml_associations py ids (map table_xml cls) before))"
proof -
  let ?a = "(t1, n1, l1, u1, t2, n2, l2, u2)"
  have c1: "c1 \<noteq> []" and c2: "c2 \<noteq> []"
    using parsed_classes_have_tables [OF assms(1)] assms(3,4) by blast+
  have branch: "many_to_many u1 u2"
    using assms(5,6) by (simp add: many_to_many_def unbounded_def)
  have sql: "association_statements py ids ?a = [join_table_sql py c1 c2]"
    using association_known(1) [OF assms(3) c1 assms(4) c2] branch by (simp add: association_sql_def)
  have xml: "association_tables py ids database ?a = database @ [join]" for database
    using association_known(2) [OF assms(3) c1 assms(4) c2] branch assms(7)
    by (simp add: association_xml_def join_table_xml_def key_column_xml_def foreign_key_xml_def Let_def)
  have script: "uml_to_sql py root =
           Inr (py_join (newline @ newline)
                  (generate_sql py ids cls before @
                   [py_join newline
                      [''CREATE TABLE `'' @ c1 @ ''_'' @ c2 @ ''_join` ('',
                       ''  `'' @ str_lower py c1 @ ''_id` INT NOT NULL,'',
                       ''  `'' @ str_lower py c2 @ ''_id` INT NOT NULL,'',
                       ''  PRIMARY KEY (`'' @ str_lower py c1 @ ''_id`, `'' @ str_lower py c2 @ ''_id`),'',
                       ''  FOREIGN KEY (`'' @ str_lower py c1 @ ''_id`) REFERENCES `'' @ c1 @ ''`(`id`),'',
                       ''  FOREIGN KEY (`'' @ str_lower py c2 @ ''_id`) REFERENCES `'' @ c2 @ ''`(`id`)'',
                       '');'']] @
                   concat (map (association_statements py ids) after)))"
    using assms(1,2) sql
    by (simp add: uml_to_sql_def generate_sql_split join_table_sql_def Let_def)
  let ?before = "generate_sql_xml_associations py ids (map table_xml cls) before"
  have step: "generate_sql_xml_associations py ids (map table_xml cls) (before @ [?a]) = ?before @ [join]"
    using xml by (simp add: generate_sql_xml_associations_append)
  have known: "\<forall>t c. class_ids_get ids t = Some c \<longrightarrow> c \<noteq> [] \<longrightarrow> has_table ?before c"
    using parsed_classes_have_tables [OF assms(1)] generate_sql_xml_associations_has_table by blast
  from generate_sql_xml_associations_kept [OF known, of py "[join]" after]
  obtain first' added where
    kept: "generate_sql_xml_associations py ids (?before @ [join]) after = first' @ [join] @ added"
    and len: "length first' = length ?before"
    by blast
  have "generate_sql_xml_associations py ids (map table_xml cls) (before @ ?a # after) = first' @ join # added"
    using generate_sql_xml_associations_append [of py ids "map table_xml cls" "before @ [?a]" after] step kept
    by simp
  then have "uml_to_sql_xml py root = Inr (Element ''database'' [] (first' @ join # added))"
    using assms(1,2) by (simp add: uml_to_sql_xml_def generate_sql_xml_def)
  with script step len show ?thesis by blast
qed

theorem many_to_many_join_table_witness:
  "unbounded (-1) \<and>
   uml_to_sql ascii_python library_model =
     Inr (py_join (newline @ newline)
            [create_table_sql ''Author'' [(''id'', ''INT PRIMARY KEY''), (''name'', ''VARCHAR(255)'')],
             create_table_sql ''Book'' [(''id'', ''INT PRIMARY KEY''), (''title'', ''VARCHAR(255)'')],
             ''ALTER TABLE `Book` ADD COLUMN `writer_id` INT;'',
             ''ALTER TABLE `Book` ADD FOREIGN KEY (`writer_id`) REFERENCES `Author`(`id`);'',
             py_join newline
               [''CREATE TABLE `Author_Book_join` ('',
                ''  `author_id` INT NOT NULL,'',
                ''  `book_id` INT NOT NULL,'',
                ''  PRIMARY KEY (`author_id`, `book_id`),'',
                ''  FOREIGN KEY (`author_id`) REFERENCES `Author`(`id`),'',
                ''  FOREIGN KEY (`book_id`) REFERENCES `Book`(`id`)'',
                '');'']]) \<and>
   (\<exists>pre post.
      uml_to_sql_xml ascii_python library_model =
        Inr (Element ''database'' []
               (pre @
                Element ''table'' [(''name'', ''Author_Book_join'')]
                  [Element ''column''
                     [(''name'', ''author_id''), (''type'', ''INT''), (''primaryKey'', ''true''),
                      (''nullable'', ''false'')] [],
                   Element ''foreignKey'' [(''targetTable'', ''Author'')]
                     [Element ''reference'' [(''localColumn'', ''author_id''), (''foreignColumn'', ''id'')] []],
                   Element ''column''
                     [(''name'', ''book_id''), (''type'', ''INT''), (''primaryKey'', ''true''),
                      (''nullable'', ''false'')] [],
                   Element ''foreignKey'' [(''targetTable'', ''Book'')]
                     [Element ''reference'' [(''localColumn'', ''book_id''), (''foreignColumn'', ''id'')] []]] # post)) \<and>
      length pre = 2)"
proof -
  let ?ids = "[(''c1'', ''Author''), (''c2'', ''Book'')]"
  let ?cls = "[(''Author'', [(''id'', ''INT PRIMARY KEY''), (''name'', ''VARCHAR(255)'')]),
               (''Book'', [(''id'', ''INT PRIMARY KEY''), (''title'', ''VARCHAR(255)'')])]"
  let ?a1 = "(Some ''c1'', ''writer'', 1::int, 1::int, Some ''c2'', ''works'', 0::int, -1::int)"
  let ?a2 = "(Some ''c1'', ''ref1'', 0::int, -1::int, Some ''c2'', ''ref2'', 0::int, -1::int)"
  have classes: "parse_classes library_model = (?ids, ?cls)"
    by code_simp
  have "parse_associations ascii_python library_model = Inr [?a1, ?a2]"
    by code_simp
  then have associations: "parse_associations ascii_python library_model = Inr ([?a1] @ ?a2 # [])"
    by simp
  have h1: "class_ids_get ?ids (Some ''c1'') = Some ''Author''"
    and h2: "class_ids_get ?ids (Some ''c2'') = Some ''Book''"
    by (simp_all add: class_ids_get_def)
  have h3: "unbounded (-1)"
    by (simp add: unbounded_def)
  have lower: "str_lower ascii_python ''Author'' = ''author''" "str_lower ascii_python ''Book'' = ''book''"
    by code_simp+
  have sql: "generate_sql ascii_python ?ids ?cls [?a1] =
             [create_table_sql ''Author'' [(''id'', ''INT PRIMARY KEY''), (''name'', ''VARCHAR(255)'')],
              create_table_sql ''Book'' [(''id'', ''INT PRIMARY KEY''), (''title'', ''VARCHAR(255)'')],
              ''ALTER TABLE `Book` ADD COLUMN `writer_id` INT;'',
              ''ALTER TABLE `Book` ADD FOREIGN KEY (`writer_id`) REFERENCES `Author`(`id`);'']"
    by code_simp
  have tables: "length (generate_sql_xml_associations ascii_python ?ids (map table_xml ?cls) [?a1]) = 2"
    by code_simp
  note inst = many_to_many_join_table [OF classes associations h1 h2 h3 h3 refl]
  show ?thesis
    using inst h3 unfolding lower sql tables by simp
qed

subsection \<open>Role names\<close>

text \<open>
  Claim C5, at the scenario of the specification. The parser gives an end without a role
  name the name ref1 or ref2, so the name that reaches the generator is never empty and
  the column is called after it: the script alters Book with the column ref1_id, and not
  author_id. The placement is the stated one: Book references Author.
\<close>

theorem author_book_foreign_key_column:
  "parse_associations ascii_python (author_book_model ''1'') =
     Inr [(Some ''c1'', ''ref1'', 1, 1, Some ''c2'', ''ref2'', 0, -1)] \<and>
   uml_to_sql ascii_python (author_book_model ''1'') =
     Inr (py_join (newline @ newline)
            [create_table_sql ''Author'' [(''id'', ''VARCHAR(255) PRIMARY KEY''), (''name'', ''VARCHAR(255)'')],
             create_table_sql ''Book'' [(''id'', ''VARCHAR(255) PRIMARY KEY''), (''title'', ''VARCHAR(255)'')],
             ''ALTER TABLE `Book` ADD COLUMN `ref1_id` INT;'',
             ''ALTER TABLE `Book` ADD FOREIGN KEY (`ref1_id`) REFERENCES `Author`(`id`);''])"
  by code_simp

subsection \<open>Errors\<close>

text \<open>
  Claim C9. Where the XML parser rejects the text with a parse error, each of the three
  entry points that parse markup returns that error and nothing else: no script, no
  schema, no model.
\<close>

theorem malformed_markup_fails:
  assumes "fromstring text = Inl ParseError"
  shows "generate_sql_from_uml_content py fromstring text = Inl ParseError \<and>
         generate_sql_xml_from_uml_content py fromstring text = Inl ParseError \<and>
         generate_uml_from_sql_xml py fromstring text = Inl ParseError"
  using assms
  by (simp add: generate_sql_from_uml_content_def generate_sql_xml_from_uml_content_def
      generate_uml_from_sql_xml_def)

theorem malformed_markup_fails_witness:
  "generate_sql_from_uml_content ascii_python
     (\<lambda>s. if s = ''<database>'' then Inl ParseError else Inr (Element ''database'' [] [])) ''<database>'' =
     Inl ParseError \<and>
   generate_sql_xml_from_uml_content ascii_python
     (\<lambda>s. if s = ''<database>'' then Inl ParseError else Inr (Element ''database'' [] [])) ''<database>'' =
     Inl ParseError \<and>
   generate_uml_from_sql_xml ascii_python
     (\<lambda>s. if s = ''<database>'' then Inl ParseError else Inr (Element ''database'' [] [])) ''<database>'' =
     Inl ParseError"
  using malformed_markup_fails
    [of "\<lambda>s. if s = ''<database>'' then Inl ParseError else Inr (Element ''database'' [] [])" "''<database>''"
        ascii_python]
  by simp

subsection \<open>The bounds of an end\<close>

lemma parse_end_error: "parse_end py e d = Inl err \<Longrightarrow> err = ValueError"
  by (auto simp: parse_end_def Let_def split: option.splits if_splits)

lemma parse_end_raises: "end_raises py e \<Longrightarrow> parse_end py e d = Inl ValueError"
  by (auto simp: end_raises_def parse_end_def Let_def split: option.splits)

lemma parse_end_returns: "\<not> end_raises py e \<Longrightarrow> \<exists>r. parse_end py e d = Inr r"
  by (auto simp: end_raises_def parse_end_def Let_def split: option.splits)

lemma rejected_lower_raises: "rejected_lower py e \<Longrightarrow> end_raises py e"
  by (auto simp: rejected_lower_def end_raises_def lower_text_def split: option.splits)

lemma two_ends:
  "(case ends of [e1, e2] \<Rightarrow> P e1 e2 | _ \<Rightarrow> False) = (\<exists>e1 e2. ends = [e1, e2] \<and> P e1 e2)"
  by (auto split: list.splits)

lemma parse_associations_loop_raises:
  "\<exists>elem\<in>set elems. raising_association py elem \<Longrightarrow> parse_associations_loop py acc elems = Inl ValueError"
proof (induction elems arbitrary: acc)
  case Nil
  then show ?case by simp
next
  case (Cons elem rest)
  show ?case
  proof (cases "raising_association py elem")
    case True
    then obtain e1 e2 where ends: "findall elem ''ownedEnd'' = [e1, e2]"
      and bad: "end_raises py e1 \<or> end_raises py e2"
      and assoc: "is_association elem"
      by (auto simp: raising_association_def split: list.splits)
    show ?thesis
    proof (cases "end_raises py e1")
      case True
      with assoc ends show ?thesis
        by (simp add: is_association_def parse_end_raises)
    next
      case False
      with bad have b2: "end_raises py e2" by simp
      from False obtain r where "parse_end py e1 ''ref1'' = Inr r"
        using parse_end_returns by blast
      with assoc ends b2 show ?thesis
        by (simp add: is_association_def parse_end_raises split: prod.splits)
    qed
  next
    case False
    with Cons.prems have later: "\<exists>elem\<in>set rest. raising_association py elem" by simp
    have ih: "parse_associations_loop py acc' rest = Inl ValueError" for acc'
      using Cons.IH [OF later] .
    show ?thesis
      by (auto simp: ih dest: parse_end_error split: list.splits sum.splits prod.splits)
  qed
qed

lemma parse_associations_loop_returns:
  "\<not> (\<exists>elem\<in>set elems. raising_association py elem) \<Longrightarrow>
     \<exists>associations. parse_associations_loop py acc elems = Inr associations"
proof (induction elems arbitrary: acc)
  case Nil
  then show ?case by simp
next
  case (Cons elem rest)
  then have ih: "\<exists>associations. parse_associations_loop py acc' rest = Inr associations" for acc'
    by simp
  from Cons.prems have here: "\<not> raising_association py elem" by simp
  show ?case
  proof (cases "is_association elem")
    case False
    then show ?thesis using ih by (auto simp: is_association_def)
  next
    case True
    show ?thesis
    proof (cases "\<exists>e1 e2. findall elem ''ownedEnd'' = [e1, e2]")
      case False
      then show ?thesis using ih True
        by (auto simp: is_association_def split: list.splits)
    next
      case True
      then obtain e1 e2 where ends: "findall elem ''ownedEnd'' = [e1, e2]" by blast
      with here \<open>is_association elem\<close> have "\<not> end_raises py e1" "\<not> end_raises py e2"
        by (simp_all add: raising_association_def)
      then obtain r1 r2 where "parse_end py e1 ''ref1'' = Inr r1" "parse_end py e2 ''ref2'' = Inr r2"
        using parse_end_returns by blast
      with ends \<open>is_association elem\<close> ih show ?thesis
        by (simp add: is_association_def split: prod.splits)
    qed
  qed
qed

subsection \<open>What int accepts of ASCII text\<close>

lemma digit_not_space: "is_digit_char c \<Longrightarrow> \<not> c_isspace c \<and> c \<noteq> CHR ''+'' \<and> c \<noteq> CHR ''-'' \<and> c \<noteq> CHR ''_''"
  by (auto simp: is_digit_char_def c_isspace_def)

lemma int_digits_accepts:
  "list_all is_digit_char s \<Longrightarrow> s \<noteq> [] \<or> b \<Longrightarrow> int_digits acc b s \<noteq> None"
  by (induction s arbitrary: acc b) auto

lemma strip_unchanged:
  assumes "s \<noteq> []" "\<not> c_isspace (hd s)" "\<not> c_isspace (last s)"
  shows "rev (dropWhile c_isspace (rev (dropWhile c_isspace s))) = s"
proof -
  have "dropWhile c_isspace s = s"
    using assms(1,2) by (cases s) auto
  moreover have "dropWhile c_isspace (rev s) = rev s"
    using assms(1,3) by (cases "rev s") (auto simp: last_rev [symmetric] simp del: last_rev)
  ultimately show ?thesis by simp
qed

lemma ascii_isdigit_ends:
  "ascii_isdigit s \<Longrightarrow> is_digit_char (hd s) \<and> is_digit_char (last s)"
  by (cases s) (auto simp: ascii_isdigit_def list_all_iff)

text \<open>
  Within the limit on digits, \<^verbatim>\<open>int\<close> accepts every decimal integer string; it accepts
  more, as the evaluation below shows.
\<close>

lemma decimal_integer_string_accepted:
  assumes "decimal_integer_string s" "limit = 0 \<or> length s \<le> limit"
  shows "ascii_int limit s \<noteq> None"
proof (cases s)
  case Nil
  with assms(1) show ?thesis by (simp add: decimal_integer_string_def)
next
  case (Cons c cs)
  have few: "length (filter is_digit_char s) \<le> length s"
    by simp
  show ?thesis
  proof (cases "c = CHR ''+'' \<or> c = CHR ''-''")
    case True
    with assms(1) Cons have dig: "ascii_isdigit cs" by (simp add: decimal_integer_string_def)
    then have "cs \<noteq> []" "list_all is_digit_char cs" by (simp_all add: ascii_isdigit_def)
    have "\<not> c_isspace c" using True by (auto simp: c_isspace_def)
    moreover have "\<not> c_isspace (last s)"
      using Cons \<open>cs \<noteq> []\<close> ascii_isdigit_ends [OF dig] digit_not_space by simp
    ultimately have "rev (dropWhile c_isspace (rev (dropWhile c_isspace s))) = s"
      using strip_unchanged [of s] Cons by simp
    with True int_digits_accepts [OF \<open>list_all is_digit_char cs\<close>, of False 0] \<open>cs \<noteq> []\<close> assms(2) few Cons
    show ?thesis by (auto simp: ascii_int_def simp del: length_filter_le)
  next
    case False
    with assms(1) Cons have dig: "ascii_isdigit s" by (simp add: decimal_integer_string_def)
    then have "list_all is_digit_char s" by (simp add: ascii_isdigit_def)
    have "rev (dropWhile c_isspace (rev (dropWhile c_isspace s))) = s"
      using strip_unchanged [of s] Cons ascii_isdigit_ends [OF dig] digit_not_space by simp
    with False int_digits_accepts [OF \<open>list_all is_digit_char s\<close>, of False 0] Cons assms(2) few
    show ?thesis by (auto simp: ascii_int_def simp del: length_filter_le)
  qed
qed

text \<open>
  Claim C10 as stated fails: the lower bounds \<^verbatim>\<open>1_0\<close> and \<^verbatim>\<open> 7\<close> (with a space in front)
  are not decimal integer strings, and \<^verbatim>\<open>int\<close> accepts both (as 10 and 7); the
  conversion goes on and gives the script it gives for the lower bound 1.
\<close>

theorem lower_bound_with_underscore_parses:
  "\<not> decimal_integer_string ''1_0'' \<and>
   parse_associations ascii_python (author_book_model ''1_0'') =
     Inr [(Some ''c1'', ''ref1'', 10, 1, Some ''c2'', ''ref2'', 0, -1)] \<and>
   \<not> decimal_integer_string '' 7'' \<and>
   parse_associations ascii_python (author_book_model '' 7'') =
     Inr [(Some ''c1'', ''ref1'', 7, 1, Some ''c2'', ''ref2'', 0, -1)] \<and>
   uml_to_sql ascii_python (author_book_model ''1_0'') = uml_to_sql ascii_python (author_book_model ''1'') \<and>
   uml_to_sql ascii_python (author_book_model '' 7'') = uml_to_sql ascii_python (author_book_model ''1'') \<and>
   \<not> isl (uml_to_sql ascii_python (author_book_model ''1''))"
  by code_simp

text \<open>
  Claim C10, amended, for every behaviour of \<^verbatim>\<open>int\<close> and \<^verbatim>\<open>isdigit\<close>. If some
  association element with exactly two ends has an end whose lower bound is present and is
  rejected by \<^verbatim>\<open>int\<close>, the conversion to a script and the conversion to schema markup
  both end with ValueError, without output. More exactly, they end so when for some end of
  such an element a call of \<^verbatim>\<open>int\<close> raises, be it for the lower bound or for an upper
  bound of which \<^verbatim>\<open>isdigit\<close> holds; otherwise both return their output. An upper
  bound that is present and of which \<^verbatim>\<open>isdigit\<close> does not hold is read as -1, and
  reading the end succeeds when \<^verbatim>\<open>int\<close> accepts its lower bound.
\<close>

theorem lower_bound_rejected_by_int_aborts:
  "((\<exists>elem\<in>set (iter root). \<exists>e1 e2.
        is_association elem \<and> findall elem ''ownedEnd'' = [e1, e2] \<and>
        (rejected_lower py e1 \<or> rejected_lower py e2)) \<longrightarrow>
      uml_to_sql py root = Inl ValueError \<and> uml_to_sql_xml py root = Inl ValueError) \<and>
   ((\<exists>elem\<in>set (iter root). raising_association py elem) \<longrightarrow>
      uml_to_sql py root = Inl ValueError \<and> uml_to_sql_xml py root = Inl ValueError) \<and>
   (\<not> (\<exists>elem\<in>set (iter root). raising_association py elem) \<longrightarrow>
      (\<exists>script. uml_to_sql py root = Inr script) \<and> (\<exists>database. uml_to_sql_xml py root = Inr database)) \<and>
   (attrib_get e ''upper'' = Some v \<and> \<not> str_isdigit py v \<and> str_int py (lower_text e) = Some l \<longrightarrow>
      parse_end py e d = Inr (attrib_get e ''type'', the (py_or (attrib_get e ''name'') (Some d)), l, -1))"
proof -
  have b: "(\<exists>elem\<in>set (iter root). raising_association py elem) \<longrightarrow>
      uml_to_sql py root = Inl ValueError \<and> uml_to_sql_xml py root = Inl ValueError"
    using parse_associations_loop_raises [of "iter root" py "[]"]
    by (auto simp: uml_to_sql_def uml_to_sql_xml_def parse_associations_def split: prod.splits)
  have "raising_association py elem"
    if "is_association elem" "findall elem ''ownedEnd'' = [e1, e2]" "rejected_lower py e1 \<or> rejected_lower py e2"
    for elem e1 e2
    using that rejected_lower_raises by (auto simp: raising_association_def)
  with b have a: "(\<exists>elem\<in>set (iter root). \<exists>e1 e2.
        is_association elem \<and> findall elem ''ownedEnd'' = [e1, e2] \<and>
        (rejected_lower py e1 \<or> rejected_lower py e2)) \<longrightarrow>
      uml_to_sql py root = Inl ValueError \<and> uml_to_sql_xml py root = Inl ValueError"
    by blast
  have c: "\<not> (\<exists>elem\<in>set (iter root). raising_association py elem) \<longrightarrow>
      (\<exists>script. uml_to_sql py root = Inr script) \<and> (\<exists>database. uml_to_sql_xml py root = Inr database)"
    using parse_associations_loop_returns [of "iter root" py "[]"]
    by (auto simp: uml_to_sql_def uml_to_sql_xml_def parse_associations_def split: prod.splits)
  have d: "attrib_get e ''upper'' = Some v \<and> \<not> str_isdigit py v \<and> str_int py (lower_text e) = Some l \<longrightarrow>
      parse_end py e d = Inr (attrib_get e ''type'', the (py_or (attrib_get e ''name'') (Some d)), l, -1)"
    by (auto simp: parse_end_def upper_text_def Let_def)
  from a b c d show ?thesis by blast
qed

theorem lower_bound_rejected_by_int_aborts_witness:
  "uml_to_sql ascii_python (author_book_model ''one'') = Inl ValueError \<and>
   uml_to_sql_xml ascii_python (author_book_model ''one'') = Inl ValueError \<and>
   uml_to_sql superscript_python
     (Element ''packagedElement'' [(xmi ''type'', ''uml:Association'')]
        [Element ''ownedEnd'' [(''type'', ''c1''), (''upper'', superscript_two)] [],
         Element ''ownedEnd'' [(''type'', ''c2'')] []]) = Inl ValueError \<and>
   (\<exists>script. uml_to_sql ascii_python (author_book_model ''1'') = Inr script) \<and>
   parse_end ascii_python (Element ''ownedEnd'' [(''type'', ''c2''), (''upper'', ''many'')] []) ''ref2'' =
     Inr (Some ''c2'', ''ref2'', 0, -1)"
proof -
  let ?upper = "Element ''packagedElement'' [(xmi ''type'', ''uml:Association'')]
        [Element ''ownedEnd'' [(''type'', ''c1''), (''upper'', superscript_two)] [],
         Element ''ownedEnd'' [(''type'', ''c2'')] []]"
  let ?end = "Element ''ownedEnd'' [(''type'', ''c2''), (''upper'', ''many'')] []"
  have bad: "list_ex (\<lambda>elem. is_association elem \<and>
                 (case findall elem ''ownedEnd'' of
                    [e1, e2] \<Rightarrow> rejected_lower ascii_python e1 \<or> rejected_lower ascii_python e2
                  | _ \<Rightarrow> False))
               (iter (author_book_model ''one''))"
    by code_simp
  then have lower: "\<exists>elem\<in>set (iter (author_book_model ''one'')). \<exists>e1 e2.
        is_association elem \<and> findall elem ''ownedEnd'' = [e1, e2] \<and>
        (rejected_lower ascii_python e1 \<or> rejected_lower ascii_python e2)"
    unfolding list_ex_iff two_ends by blast
  have "list_ex (raising_association superscript_python) (iter ?upper)"
    by code_simp
  then have upper: "\<exists>elem\<in>set (iter ?upper). raising_association superscript_python elem"
    unfolding list_ex_iff .
  have "\<not> list_ex (raising_association ascii_python) (iter (author_book_model ''1''))"
    by code_simp
  then have good: "\<not> (\<exists>elem\<in>set (iter (author_book_model ''1'')). raising_association ascii_python elem)"
    unfolding list_ex_iff .
  have many: "attrib_get ?end ''upper'' = Some ''many'' \<and> \<not> str_isdigit ascii_python ''many'' \<and>
              str_int ascii_python (lower_text ?end) = Some 0"
    by code_simp
  have name: "attrib_get ?end ''type'' = Some ''c2'' \<and>
              the (py_or (attrib_get ?end ''name'') (Some ''ref2'')) = ''ref2''"
    by code_simp
  show ?thesis
    using lower upper good many name
      lower_bound_rejected_by_int_aborts [of "author_book_model ''one''" ascii_python]
      lower_bound_rejected_by_int_aborts [of ?upper superscript_python]
      lower_bound_rejected_by_int_aborts [of "author_book_model ''1''" ascii_python ?end "''many''" 0 "''ref2''"]
    by simp
qed

subsection \<open>Types of columns\<close>

lemma upper_words:
  "ascii_upper ''INT'' = ''INT''" "ascii_upper ''CHAR'' = ''CHAR''" "ascii_upper ''TEXT'' = ''TEXT''"
  "ascii_upper ''VARCHAR'' = ''VARCHAR''" "ascii_upper ''FLOAT'' = ''FLOAT''" "ascii_upper ''DOUBLE'' = ''DOUBLE''"
  "ascii_upper ''REAL'' = ''REAL''" "ascii_upper ''BOOLEAN'' = ''BOOLEAN''" "ascii_upper ''DATE'' = ''DATE''"
  by code_simp+

lemma ddl_uml_type_spec: "ddl_uml_type (ascii_upper col_type) = toPrimitiveType col_type"
  by (simp add: ddl_uml_type_def toPrimitiveType_def contains_ignoring_case_def upper_words)

lemma ddl_uml_type_ignores_case:
  "ascii_upper s = ascii_upper s' \<Longrightarrow> ddl_uml_type (ascii_upper s) = ddl_uml_type (ascii_upper s')"
  by simp

lemma ddl_attribute_type:
  assumes "ddl_attribute table_name col_def = Some attr"
  shows "attrib_get attr ''type'' = Some (toPrimitiveType (py_split col_def ! 1))"
  using assms
  by (auto simp: ddl_attribute_def Let_def attrib_get_def ddl_uml_type_spec split: if_splits)

text \<open>
  Claim C7, on the path from schema markup. The type of a column is searched for the
  upper-case words as it is written, so a type in lower case is not recognised: int and
  date become String, where the specification's classification (and the path from an SQL
  script, which puts the type in upper case first) gives Integer and Date.
\<close>

theorem schema_markup_type_case:
  "schema_uml_type ''int'' = ''String'' \<and> toPrimitiveType ''int'' = ''Integer'' \<and>
   schema_uml_type ''INT'' = ''Integer'' \<and>
   schema_uml_type ''varchar(255)'' = ''String'' \<and> schema_uml_type ''double'' = ''String'' \<and>
   schema_uml_type ''date'' = ''String'' \<and> toPrimitiveType ''date'' = ''Date'' \<and>
   ddl_uml_type (ascii_upper ''int'') = ''Integer'' \<and> ddl_uml_type (ascii_upper ''date'') = ''Date'' \<and>
   sql_xml_to_uml ascii_python
     (Element ''database'' []
        [schema_table ''T'' [Element ''column'' [(''name'', ''a''), (''type'', ''int'')] []]]) =
     Inr (model_element
            [Element ''packagedElement''
               [(''xmi:type'', ''uml:Class''), (''xmi:id'', ''class_1''), (''name'', ''T'')]
               [Element ''ownedAttribute''
                  [(''xmi:id'', ''attr_class_1_a''), (''name'', ''a''), (''type'', ''String'')] []]])"
  by code_simp

subsection \<open>Column lists\<close>

text \<open>
  Claim C8. The text of the group loses every parenthesis at its ends, also the one that
  closes the type of the last column; the comma inside that type is then followed by no
  closing parenthesis and splits the list. A comma inside parentheses that is followed
  by an opening parenthesis splits the list as well. A piece of at least two words
  becomes an attribute: the table with the columns a and b, where b is the last column
  and has the type ENUM('x', 'y z'), gets a third attribute called 'y; with a column after
  b it gets none. The example of the specification gives two column definitions.
\<close>

theorem column_list_split_inside_parentheses:
  "column_defs ''(a INT, b DECIMAL(10,2))'' = [''a INT'', ''b DECIMAL(10'', ''2''] \<and>
   column_defs ''(x T(1, (2)), y INT)'' = [''x T(1'', ''(2))'', ''y INT''] \<and>
   column_defs ''(a DECIMAL(10,2), b INT)'' = [''a DECIMAL(10,2)'', ''b INT''] \<and>
   column_defs ''(`name` VARCHAR(255), `age` INT)'' = [''`name` VARCHAR(255)'', ''`age` INT''] \<and>
   re_split_columns [] ''`name` VARCHAR(255), `age` INT'' = [''`name` VARCHAR(255)'', ''`age` INT''] \<and>
   map (\<lambda>attr. attrib_get attr ''name'')
     (ddl_attributes ''t'' [group_token ''(a INT, b ENUM('x', 'y z'))'']) =
     [Some ''a'', Some ''b'', Some [CHR 0x27, CHR ''y'']] \<and>
   map (\<lambda>attr. attrib_get attr ''name'')
     (ddl_attributes ''t'' [group_token ''(a INT, b ENUM('x', 'y z'), c INT)'']) =
     [Some ''a'', Some ''b'', Some ''c'']"
  by code_simp

subsection \<open>Associations from foreign keys\<close>

lemma ddl_association_canonical:
  "canonical_ends (ddl_association class_map n src_table ref_table)
     (the (map_of class_map ref_table)) (the (map_of class_map src_table))"
  by (simp add: canonical_ends_def ddl_association_def owned_end_def attrib_get_def)

lemma schema_association_canonical:
  "canonical_ends (schema_association py assoc_id target_class_id target_table source_class_id table_name)
     target_class_id source_class_id"
  by (simp add: canonical_ends_def schema_association_def owned_end_def attrib_get_def)

text \<open>Every association that the second pass over a script adds has the canonical ends.\<close>

lemma ddl_associations_canonical:
  assumes "\<forall>e\<in>set packaged. is_association_element e \<longrightarrow> (\<exists>r s. canonical_ends e r s)"
  shows "\<forall>e\<in>set (snd (ddl_associations class_map (n, packaged) stmts)).
           is_association_element e \<longrightarrow> (\<exists>r s. canonical_ends e r s)"
  using assms
proof (induction stmts arbitrary: n packaged)
  case Nil
  then show ?case by simp
next
  case (Cons stmt rest)
  have step: "\<forall>e\<in>set (packaged @ [ddl_association class_map n src ref]).
                is_association_element e \<longrightarrow> (\<exists>r s. canonical_ends e r s)" for src ref
    using Cons.prems ddl_association_canonical [of class_map n src ref] by auto
  show ?case
    using Cons.IH [OF Cons.prems] Cons.IH [OF step]
    by (simp add: Let_def split: option.splits prod.splits)
qed

lemma ddl_classes_unfold:
  "ddl_classes (class_map, packaged) (p # rest) = ddl_classes (class_map, packaged) rest \<or>
   ddl_classes (class_map, packaged) (p # rest) = Inl AttributeError \<or>
   (\<exists>table_name.
      ddl_classes (class_map, packaged) (p # rest) =
        ddl_classes
          (AList.update table_name (''id_'' @ table_name) class_map,
           packaged @ [Element ''packagedElement''
                         [(''xmi:type'', ''uml:Class''), (''xmi:id'', ''id_'' @ table_name),
                          (''name'', table_name)]
                         (ddl_attributes table_name p)]) rest)"
  by (simp add: Let_def split: option.splits) blast

lemma ddl_classes_no_association:
  assumes "ddl_classes (class_map, packaged) parsed = Inr (class_map', packaged')"
    and "\<forall>e\<in>set packaged. \<not> is_association_element e"
  shows "\<forall>e\<in>set packaged'. \<not> is_association_element e"
  using assms
proof (induction parsed arbitrary: class_map packaged)
  case Nil
  then show ?case by simp
next
  case (Cons p rest)
  consider
    (skip) "ddl_classes (class_map, packaged) (p # rest) = ddl_classes (class_map, packaged) rest"
  | (raise) "ddl_classes (class_map, packaged) (p # rest) = Inl AttributeError"
  | (table) table_name where
      "ddl_classes (class_map, packaged) (p # rest) =
        ddl_classes
          (AList.update table_name (''id_'' @ table_name) class_map,
           packaged @ [Element ''packagedElement''
                         [(''xmi:type'', ''uml:Class''), (''xmi:id'', ''id_'' @ table_name),
                          (''name'', table_name)]
                         (ddl_attributes table_name p)]) rest"
    using ddl_classes_unfold [of class_map packaged p rest] by blast
  then show ?case
  proof cases
    case skip
    with Cons.prems(1) have "ddl_classes (class_map, packaged) rest = Inr (class_map', packaged')"
      by simp
    from Cons.IH [OF this Cons.prems(2)] show ?thesis .
  next
    case raise
    with Cons.prems(1) show ?thesis by simp
  next
    case table
    let ?packaged = "packaged @ [Element ''packagedElement''
                         [(''xmi:type'', ''uml:Class''), (''xmi:id'', ''id_'' @ table_name),
                          (''name'', table_name)]
                         (ddl_attributes table_name p)]"
    have new: "\<forall>e\<in>set ?packaged. \<not> is_association_element e"
      using Cons.prems(2) by (auto simp: is_association_element_def attrib_get_def)
    from table Cons.prems(1)
    have "ddl_classes (AList.update table_name (''id_'' @ table_name) class_map, ?packaged) rest =
            Inr (class_map', packaged')"
      by simp
    from Cons.IH [OF this new] show ?thesis .
  qed
qed

lemma generate_uml_from_sql_canonical:
  assumes "generate_uml_from_sql statements = Inr model"
  shows "\<forall>e\<in>set (children model). is_association_element e \<longrightarrow> (\<exists>r s. canonical_ends e r s)"
proof -
  from assms obtain class_map packaged where
    c: "ddl_classes ([], []) (map snd statements) = Inr (class_map, packaged)"
    and m: "model = model_element (snd (ddl_associations class_map (1, packaged) (map fst statements)))"
    by (auto simp: generate_uml_from_sql_def split: sum.splits)
  have "\<forall>e\<in>set packaged. \<not> is_association_element e"
    using ddl_classes_no_association [OF c] by simp
  then have "\<forall>e\<in>set packaged. is_association_element e \<longrightarrow> (\<exists>r s. canonical_ends e r s)"
    by blast
  from ddl_associations_canonical [OF this] m show ?thesis
    by (simp add: model_element_def)
qed

text \<open>A foreign key statement between known tables adds its association.\<close>

lemma ddl_associations_step:
  assumes "py_in ''FOREIGN KEY'' (ascii_upper stmt)" "py_in ''REFERENCES'' (ascii_upper stmt)"
    and "search_foreign_key stmt = Some (src_table, src_col, ref_table, ref_col)"
    and "map_of class_map src_table = Some src_class" "map_of class_map ref_table = Some ref_class"
  shows "ddl_associations class_map (n, packaged) (stmt # rest) =
           ddl_associations class_map
             (n + 1, packaged @ [ddl_association class_map n src_table ref_table]) rest"
    and "canonical_ends (ddl_association class_map n src_table ref_table) ref_class src_class"
  using assms ddl_association_canonical [of class_map n src_table ref_table]
  by simp_all

text \<open>A foreign key element with a reference, between known tables, adds its association.\<close>

lemma schema_foreign_keys_step:
  assumes "map_of class_map (Some table_name) = Some source_class" "source_class \<noteq> []"
    and "attrib_get fk ''targetTable'' = Some target_table"
    and "map_of class_map (Some target_table) = Some target_class" "target_class \<noteq> []"
    and "find_child fk ''reference'' = Some ref"
  shows "schema_foreign_keys py class_map (Some table_name) (n, packaged) (fk # rest) =
           schema_foreign_keys py class_map (Some table_name)
             (n + 1, packaged @ [schema_association py (''assoc_'' @ py_str_nat n) target_class target_table
                                   source_class table_name]) rest"
    and "canonical_ends (schema_association py (''assoc_'' @ py_str_nat n) target_class target_table
                           source_class table_name) target_class source_class"
  using assms schema_association_canonical
  by (simp_all add: truthy_def Let_def)

lemma schema_foreign_keys_shape:
  assumes "schema_foreign_keys py class_map table_name (n, packaged) fks = Inr (n', packaged')"
    and "\<forall>e\<in>set packaged. is_association_element e \<longrightarrow> children e = [] \<or> (\<exists>r s. canonical_ends e r s)"
  shows "\<forall>e\<in>set packaged'. is_association_element e \<longrightarrow> children e = [] \<or> (\<exists>r s. canonical_ends e r s)"
  using assms
proof (induction fks arbitrary: n packaged)
  case Nil
  then show ?case by simp
next
  case (Cons fk rest)
  let ?P = "\<lambda>packaged. \<forall>e\<in>set packaged. is_association_element e \<longrightarrow>
                          children e = [] \<or> (\<exists>r s. canonical_ends e r s)"
  have "schema_foreign_keys py class_map table_name (n, packaged) (fk # rest) =
          schema_foreign_keys py class_map table_name (n, packaged) rest \<or>
        schema_foreign_keys py class_map table_name (n, packaged) (fk # rest) = Inl AttributeError \<or>
        (\<exists>new. (children new = [] \<or> (\<exists>r s. canonical_ends new r s)) \<and>
           schema_foreign_keys py class_map table_name (n, packaged) (fk # rest) =
             schema_foreign_keys py class_map table_name (n + 1, packaged @ [new]) rest)"
  proof (cases "\<not> truthy (map_of class_map table_name) \<or>
                \<not> truthy (map_of class_map (attrib_get fk ''targetTable''))")
    case True
    then show ?thesis by (simp add: Let_def)
  next
    case known: False
    show ?thesis
    proof (cases "find_child fk ''reference''")
      case None
      let ?new = "Element ''packagedElement''
                    [(''xmi:type'', ''uml:Association''), (''xmi:id'', ''assoc_'' @ py_str_nat n)] []"
      have "children ?new = []" by simp
      moreover have "schema_foreign_keys py class_map table_name (n, packaged) (fk # rest) =
                       schema_foreign_keys py class_map table_name (n + 1, packaged @ [?new]) rest"
        using known None by (simp add: Let_def)
      ultimately show ?thesis by blast
    next
      case (Some ref)
      show ?thesis
      proof (cases "attrib_get fk ''targetTable''")
        case None
        then have "schema_foreign_keys py class_map table_name (n, packaged) (fk # rest) = Inl AttributeError"
          using known Some by (simp add: Let_def)
        then show ?thesis by simp
      next
        case target: (Some target)
        show ?thesis
        proof (cases table_name)
          case None
          then have "schema_foreign_keys py class_map table_name (n, packaged) (fk # rest) = Inl AttributeError"
            using known Some target by (simp add: Let_def)
          then show ?thesis by simp
        next
          case source: (Some source)
          let ?new = "schema_association py (''assoc_'' @ py_str_nat n)
                        (the (map_of class_map (Some target))) target
                        (the (map_of class_map (Some source))) source"
          have "\<exists>r s. canonical_ends ?new r s"
            using schema_association_canonical by blast
          moreover have "schema_foreign_keys py class_map table_name (n, packaged) (fk # rest) =
                           schema_foreign_keys py class_map table_name (n + 1, packaged @ [?new]) rest"
            using known Some target source by (simp add: Let_def)
          ultimately show ?thesis by blast
        qed
      qed
    qed
  qed
  then consider
    (skip) "schema_foreign_keys py class_map table_name (n, packaged) (fk # rest) =
              schema_foreign_keys py class_map table_name (n, packaged) rest"
  | (raise) "schema_foreign_keys py class_map table_name (n, packaged) (fk # rest) = Inl AttributeError"
  | (add) new where "children new = [] \<or> (\<exists>r s. canonical_ends new r s)"
      "schema_foreign_keys py class_map table_name (n, packaged) (fk # rest) =
         schema_foreign_keys py class_map table_name (n + 1, packaged @ [new]) rest"
    by blast
  then show ?case
  proof cases
    case skip
    with Cons.prems(1) have "schema_foreign_keys py class_map table_name (n, packaged) rest = Inr (n', packaged')"
      by simp
    from Cons.IH [OF this Cons.prems(2)] show ?thesis .
  next
    case raise
    with Cons.prems(1) show ?thesis by simp
  next
    case add
    have "?P (packaged @ [new])"
      using Cons.prems(2) add(1) by auto
    moreover from add(2) Cons.prems(1)
    have "schema_foreign_keys py class_map table_name (n + 1, packaged @ [new]) rest = Inr (n', packaged')"
      by simp
    ultimately show ?thesis using Cons.IH by blast
  qed
qed

lemma schema_associations_shape:
  assumes "schema_associations py class_map (n, packaged) tables = Inr (n', packaged')"
    and "\<forall>e\<in>set packaged. is_association_element e \<longrightarrow> children e = [] \<or> (\<exists>r s. canonical_ends e r s)"
  shows "\<forall>e\<in>set packaged'. is_association_element e \<longrightarrow> children e = [] \<or> (\<exists>r s. canonical_ends e r s)"
  using assms
proof (induction tables arbitrary: n packaged)
  case Nil
  then show ?case by simp
next
  case (Cons table rest)
  from Cons.prems(1) obtain m mid where
    fks: "schema_foreign_keys py class_map (attrib_get table ''name'') (n, packaged)
            (findall table ''foreignKey'') = Inr (m, mid)"
    and later: "schema_associations py class_map (m, mid) rest = Inr (n', packaged')"
    by (auto split: sum.splits)
  from Cons.IH [OF later schema_foreign_keys_shape [OF fks Cons.prems(2)]] show ?case .
qed

lemma schema_attributes_error: "schema_attributes class_id st columns = Inl err \<Longrightarrow> err = TypeError"
proof (induction columns arbitrary: st)
  case Nil
  then show ?case by simp
next
  case (Cons column rest)
  then show ?case
    by (cases st) (auto simp: Let_def split: option.splits)
qed

lemma schema_classes_no_association:
  assumes "schema_classes (class_map, k, packaged, u) tables = Inr (class_map', k', packaged', u')"
    and "\<forall>e\<in>set packaged. \<not> is_association_element e"
  shows "\<forall>e\<in>set packaged'. \<not> is_association_element e"
  using assms
proof (induction tables arbitrary: class_map k packaged u)
  case Nil
  then show ?case by simp
next
  case (Cons table rest)
  let ?class_id = "''class_'' @ py_str_nat k"
  from Cons.prems(1) obtain attrs v where
    attrs: "schema_attributes ?class_id ([], u \<or> attrib_get table ''name'' = None) (findall table ''column'') =
              Inr (attrs, v)"
    by (auto simp: Let_def split: sum.splits)
  let ?packaged = "packaged @ [Element ''packagedElement''
                      [(''xmi:type'', ''uml:Class''), (''xmi:id'', ?class_id),
                       (''name'', py_str (attrib_get table ''name''))] attrs]"
  have new: "\<forall>e\<in>set ?packaged. \<not> is_association_element e"
    using Cons.prems(2) by (auto simp: is_association_element_def attrib_get_def)
  from Cons.prems(1) attrs
  have "schema_classes (AList.update (attrib_get table ''name'') ?class_id class_map, k + 1, ?packaged, v) rest =
          Inr (class_map', k', packaged', u')"
    by (simp add: Let_def)
  from Cons.IH [OF this new] show ?case .
qed

text \<open>
  In a model made from schema markup, an association either has the canonical ends or has
  no ends; the second is the association of a foreign key without a reference.
\<close>

lemma sql_xml_to_uml_shape:
  assumes "sql_xml_to_uml py root = Inr model"
  shows "\<forall>e\<in>set (children model).
           is_association_element e \<longrightarrow> children e = [] \<or> (\<exists>r s. canonical_ends e r s)"
proof -
  from assms obtain class_map k packaged u n packaged' where
    c: "schema_classes ([], 1, [], False) (findall root ''table'') = Inr (class_map, k, packaged, u)"
    and a: "schema_associations py class_map (1, packaged) (findall root ''table'') = Inr (n, packaged')"
    and m: "model = model_element packaged'"
    by (auto simp: sql_xml_to_uml_def split: sum.splits if_splits)
  have "\<forall>e\<in>set packaged. \<not> is_association_element e"
    using schema_classes_no_association [OF c] by simp
  then have "\<forall>e\<in>set packaged. is_association_element e \<longrightarrow>
               children e = [] \<or> (\<exists>r s. canonical_ends e r s)"
    by blast
  from schema_associations_shape [OF a this] m show ?thesis
    by (simp add: model_element_def)
qed

text \<open>
  Claim C6, on the path from schema markup. A foreign key between known tables that has
  no reference element still adds an association element, made before the reference is
  looked for, and this association has no ends.
\<close>

theorem foreign_key_without_reference:
  "sql_xml_to_uml ascii_python
     (Element ''database'' []
        [schema_table ''Author'' [],
         schema_table ''Book'' [Element ''foreignKey'' [(''targetTable'', ''Author'')] []]]) =
     Inr (model_element
            [Element ''packagedElement''
               [(''xmi:type'', ''uml:Class''), (''xmi:id'', ''class_1''), (''name'', ''Author'')] [],
             Element ''packagedElement''
               [(''xmi:type'', ''uml:Class''), (''xmi:id'', ''class_2''), (''name'', ''Book'')] [],
             Element ''packagedElement''
               [(''xmi:type'', ''uml:Association''), (''xmi:id'', ''assoc_1'')] []]) \<and>
   is_association_element (Element ''packagedElement''
               [(''xmi:type'', ''uml:Association''), (''xmi:id'', ''assoc_1'')] []) \<and>
   \<not> canonical_ends (Element ''packagedElement''
               [(''xmi:type'', ''uml:Association''), (''xmi:id'', ''assoc_1'')] []) ''class_1'' ''class_2''"
  by code_simp

end
